theory Spec2Isabelle
  imports Complex_Main "HOL-Library.AList" "HOL-Library.Sublist"
begin

section \<open>Python values and strings\<close>

text \<open>
  A decoded JSON document, as \<^verbatim>\<open>json.loads\<close> returns it: \<^verbatim>\<open>None\<close>, \<^verbatim>\<open>bool\<close>, \<^verbatim>\<open>int\<close>,
  \<^verbatim>\<open>str\<close>, \<^verbatim>\<open>list\<close> and \<^verbatim>\<open>dict\<close>. A dict keeps its insertion order, so it is an
  association list; \<^verbatim>\<open>d.get(k)\<close> is \<open>map_of d k\<close>. Number literals with a fraction or an
  exponent are not part of this model of a record. A \<^verbatim>\<open>str\<close> is a list of characters,
  each standing for one code point below 256.
\<close>

datatype json =
    JNull
  | JBool bool
  | JInt int
  | JStr string
  | JList "json list"
  | JObj "(string \<times> json) list"

datatype py_error =
    AttributeError
  | TypeError
  | ValueError
  | RuntimeError
  | FileNotFoundError
  | AssertionError
  | OtherError

text \<open>\<^verbatim>\<open>isinstance(x, list)\<close>, \<^verbatim>\<open>isinstance(x, dict)\<close>, \<^verbatim>\<open>isinstance(x, str)\<close>.\<close>

fun is_list :: "json \<Rightarrow> bool" where
  "is_list (JList _) = True"
| "is_list _ = False"

fun is_dict :: "json \<Rightarrow> bool" where
  "is_dict (JObj _) = True"
| "is_dict _ = False"

fun is_str :: "json \<Rightarrow> bool" where
  "is_str (JStr _) = True"
| "is_str _ = False"

text \<open>\<^verbatim>\<open>m.get(k)\<close> on a value that is known to be a dict; \<^verbatim>\<open>None\<close> when the key is absent.
  On a value that is no dict the attribute \<^verbatim>\<open>get\<close> does not exist; the callers test
  \<open>is_dict\<close> first and raise \<open>AttributeError\<close> themselves.\<close>

fun get :: "json \<Rightarrow> string \<Rightarrow> json" where
  "get (JObj kvs) k = (case map_of kvs k of Some v \<Rightarrow> v | None \<Rightarrow> JNull)"
| "get _ k = JNull"

fun has_key :: "json \<Rightarrow> string \<Rightarrow> bool" where
  "has_key (JObj kvs) k = (map_of kvs k \<noteq> None)"
| "has_key _ k = False"

text \<open>Python truthiness (\<^verbatim>\<open>if x\<close>, \<^verbatim>\<open>not x\<close>, \<^verbatim>\<open>x and y\<close>).\<close>

fun truthy :: "json \<Rightarrow> bool" where
  "truthy JNull = False"
| "truthy (JBool b) = b"
| "truthy (JInt i) = (i \<noteq> 0)"
| "truthy (JStr s) = (s \<noteq> [])"
| "truthy (JList xs) = (xs \<noteq> [])"
| "truthy (JObj kvs) = (kvs \<noteq> [])"

text \<open>\<^verbatim>\<open>str.isspace\<close> on the code points below 256, and \<^verbatim>\<open>str.strip()\<close>.\<close>

definition py_isspace :: "char \<Rightarrow> bool" where
  "py_isspace c = (of_char c \<in> {9, 10, 11, 12, 13, 28, 29, 30, 31, 32, 133, 160 :: nat})"

definition strip :: "string \<Rightarrow> string" where
  "strip s = dropWhile py_isspace (rev (dropWhile py_isspace (rev s)))"

text \<open>\<^verbatim>\<open>sep.join(xs)\<close>.\<close>

fun join :: "string \<Rightarrow> string list \<Rightarrow> string" where
  "join sep [] = []"
| "join sep [x] = x"
| "join sep (x # y # ys) = x @ sep @ join sep (y # ys)"

text \<open>\<^verbatim>\<open>str(n)\<close> for a non-negative and for any integer.\<close>

definition digit_char :: "nat \<Rightarrow> char" where
  "digit_char d = char_of (48 + d)"

fun str_nat :: "nat \<Rightarrow> string" where
  "str_nat n = (if n < 10 then [digit_char n] else str_nat (n div 10) @ [digit_char (n mod 10)])"

declare str_nat.simps [simp del]

definition str_int :: "int \<Rightarrow> string" where
  "str_int i = (if i < 0 then CHR ''-'' # str_nat (nat (- i)) else str_nat (nat i))"

section \<open>Issue model\<close>

record issue =
  level :: string
  code :: string
  line :: nat
  sample_id :: string
  path :: string
  message :: string

definition LEVEL_ORDER :: "string \<Rightarrow> nat option" where
  "LEVEL_ORDER = map_of [(''INFO'', 0), (''WARN'', 1), (''ERROR'', 2)]"

text \<open>\<^verbatim>\<open>_issue\<close>: an unknown level is coerced to \<^verbatim>\<open>ERROR\<close>. Where the source interpolates
  an exception text or a \<^verbatim>\<open>repr\<close> into the message, the model keeps the fixed part.\<close>

definition mk_issue :: "string \<Rightarrow> string \<Rightarrow> nat \<Rightarrow> string \<Rightarrow> string \<Rightarrow> string \<Rightarrow> issue" where
  "mk_issue lv c line_no sid p msg =
     \<lparr> level = (if LEVEL_ORDER lv = None then ''ERROR'' else lv),
       code = c, line = line_no, sample_id = sid, path = p, message = msg \<rparr>"

section \<open>Profiles\<close>

text \<open>The dataclass \<^verbatim>\<open>Profile\<close> does not check the types of its fields, and the checks
  read them by truthiness, so the flags are kept as the values they were given.\<close>

record profile =
  name :: string
  require_system :: json
  system_visible :: json
  fold_system_into_user :: json
  system_invisible_level :: json

text \<open>\<^verbatim>\<open>Profile(name=...)\<close> with the defaults of the dataclass, and the three built-in
  profiles of \<^verbatim>\<open>DEFAULT_PROFILES\<close>, which all carry the same values.\<close>

definition Profile :: "string \<Rightarrow> profile" where
  "Profile nm = \<lparr> name = nm, require_system = JBool True, system_visible = JBool True,
     fold_system_into_user = JBool False, system_invisible_level = JStr ''ERROR'' \<rparr>"


section \<open>Chat schema lint\<close>

definition is_blank_text :: "json \<Rightarrow> bool" where
  "is_blank_text x = (case x of JStr s \<Rightarrow> strip s = [] | _ \<Rightarrow> False)"

text \<open>\<^verbatim>\<open>it.get("type") == "text" and isinstance(it.get("text"), str)\<close> on a dict.\<close>

definition is_text_item :: "json \<Rightarrow> bool" where
  "is_text_item it = (is_dict it \<and> get it ''type'' = JStr ''text'' \<and> is_str (get it ''text''))"

fun str_of :: "json \<Rightarrow> string" where
  "str_of (JStr s) = s"
| "str_of _ = []"

fun typed_text_of_content :: "json \<Rightarrow> string" where
  "typed_text_of_content (JStr s) = s"
| "typed_text_of_content (JObj kvs) =
     (if is_text_item (JObj kvs) then str_of (get (JObj kvs) ''text'') else [])"
| "typed_text_of_content (JList its) =
     join [CHR 0x0A] (map (\<lambda>it. str_of (get it ''text'')) (filter is_text_item its))"
| "typed_text_of_content _ = []"

definition is_system :: "json \<Rightarrow> bool" where
  "is_system m = (get m ''role'' = JStr ''system'')"

definition E002_SYSTEM_REQUIRED :: "nat \<Rightarrow> string \<Rightarrow> issue" where
  "E002_SYSTEM_REQUIRED line_no sid =
     mk_issue ''ERROR'' ''E002_SYSTEM_REQUIRED'' line_no sid ''messages''
       ''Profile requires a role='system' message, but none is present.''"

definition E002_SYSTEM_EMPTY :: "nat \<Rightarrow> string \<Rightarrow> issue" where
  "E002_SYSTEM_EMPTY line_no sid =
     mk_issue ''ERROR'' ''E002_SYSTEM_EMPTY'' line_no sid ''messages''
       ''Profile requires a non-empty role='system' message, but system content is empty/blank.''"

text \<open>The loop over the system messages: the first blank one appends the issue and
  breaks.\<close>

fun first_blank_system :: "json list \<Rightarrow> nat \<Rightarrow> string \<Rightarrow> issue list" where
  "first_blank_system [] line_no sid = []"
| "first_blank_system (sm # rest) line_no sid =
     (if is_blank_text (JStr (typed_text_of_content (get sm ''content'')))
      then [E002_SYSTEM_EMPTY line_no sid]
      else first_blank_system rest line_no sid)"

text \<open>\<^verbatim>\<open>_system_presence_and_nonempty\<close>. The comprehension calls \<^verbatim>\<open>m.get\<close> on every
  message, which raises \<^verbatim>\<open>AttributeError\<close> on one that is no dict.\<close>

definition system_presence_and_nonempty ::
    "json list \<Rightarrow> nat \<Rightarrow> string \<Rightarrow> profile \<Rightarrow> py_error + issue list" where
  "system_presence_and_nonempty messages line_no sid profile_obj =
     (if \<not> truthy (require_system profile_obj) then Inr []
      else if \<not> list_all is_dict messages then Inl AttributeError
      else let sys_msgs = filter is_system messages in
        if sys_msgs = [] then Inr [E002_SYSTEM_REQUIRED line_no sid]
        else Inr (first_blank_system sys_msgs line_no sid))"

text \<open>The text the claim speaks of: the extracted texts of all system messages, joined
  by newlines (as \<^verbatim>\<open>verify_system_visibility_jsonl\<close> builds \<^verbatim>\<open>sys_text\<close>).\<close>

definition system_text :: "json list \<Rightarrow> string" where
  "system_text messages =
     join [CHR 0x0A] (map (\<lambda>m. typed_text_of_content (get m ''content'')) (filter is_system messages))"

section \<open>\<^verbatim>\<open>str()\<close> of a decoded value\<close>

text \<open>\<^verbatim>\<open>repr\<close> of a \<^verbatim>\<open>str\<close>: single quotes unless the text has a single quote and no double
  quote; the quote and the backslash are escaped, tab, newline and carriage return get
  their letter, the other code points that are not printable are written \<^verbatim>\<open>\xhh\<close>.\<close>

definition hex_digit :: "nat \<Rightarrow> char" where
  "hex_digit d = (if d < 10 then char_of (48 + d) else char_of (87 + d))"

definition py_printable :: "char \<Rightarrow> bool" where
  "py_printable c = (let n = (of_char c :: nat) in
     (32 \<le> n \<and> n < 127) \<or> (161 \<le> n \<and> n \<noteq> 173))"

definition repr_char :: "char \<Rightarrow> char \<Rightarrow> string" where
  "repr_char q c =
     (if c = q \<or> c = CHR 0x5C then [CHR 0x5C, c]
      else if c = CHR 0x09 then [CHR 0x5C, CHR ''t'']
      else if c = CHR 0x0A then [CHR 0x5C, CHR ''n'']
      else if c = CHR 0x0D then [CHR 0x5C, CHR ''r'']
      else if py_printable c then [c]
      else [CHR 0x5C, CHR ''x'', hex_digit (of_char c div 16), hex_digit (of_char c mod 16)])"

definition repr_str :: "string \<Rightarrow> string" where
  "repr_str s =
     (let q = (if CHR 0x27 \<in> set s \<and> CHR 0x22 \<notin> set s then CHR 0x22 else CHR 0x27)
      in [q] @ concat (map (repr_char q) s) @ [q])"

fun py_repr :: "json \<Rightarrow> string"
  and py_repr_list :: "json list \<Rightarrow> string list"
  and py_repr_items :: "(string \<times> json) list \<Rightarrow> string list" where
  "py_repr JNull = ''None''"
| "py_repr (JBool b) = (if b then ''True'' else ''False'')"
| "py_repr (JInt i) = str_int i"
| "py_repr (JStr s) = repr_str s"
| "py_repr (JList xs) = ''['' @ join '', '' (py_repr_list xs) @ '']''"
| "py_repr (JObj kvs) = ''{'' @ join '', '' (py_repr_items kvs) @ ''}''"
| "py_repr_list [] = []"
| "py_repr_list (x # xs) = py_repr x # py_repr_list xs"
| "py_repr_items [] = []"
| "py_repr_items (kv # kvs) = (repr_str (fst kv) @ '': '' @ py_repr (snd kv)) # py_repr_items kvs"

definition py_str :: "json \<Rightarrow> string" where
  "py_str v = (case v of JStr s \<Rightarrow> s | _ \<Rightarrow> py_repr v)"

text \<open>\<^verbatim>\<open>str.lower()\<close>, on the ASCII letters.\<close>

definition lower_char :: "char \<Rightarrow> char" where
  "lower_char c = (let n = (of_char c :: nat) in if 65 \<le> n \<and> n \<le> 90 then char_of (n + 32) else c)"

definition lower :: "string \<Rightarrow> string" where
  "lower s = map lower_char s"

section \<open>Schema validation\<close>

definition ALLOWED_ROLES :: "json set" where
  "ALLOWED_ROLES = {JStr ''system'', JStr ''user'', JStr ''assistant'', JStr ''tool''}"

text \<open>A list or a dict cannot be hashed: testing it for membership in a set, or as a key
  of a dict, raises \<^verbatim>\<open>TypeError\<close>.\<close>

fun unhashable :: "json \<Rightarrow> bool" where
  "unhashable (JList _) = True"
| "unhashable (JObj _) = True"
| "unhashable _ = False"

definition E003 :: "nat \<Rightarrow> string \<Rightarrow> string \<Rightarrow> string \<Rightarrow> issue" where
  "E003 line_no sid p msg = mk_issue ''ERROR'' ''E003_SCHEMA_MISMATCH'' line_no sid p msg"

definition E011 :: "nat \<Rightarrow> string \<Rightarrow> string \<Rightarrow> string \<Rightarrow> issue" where
  "E011 line_no sid p msg = mk_issue ''ERROR'' ''E011_MISSING_TYPE_FIELDS'' line_no sid p msg"

definition E012 :: "nat \<Rightarrow> string \<Rightarrow> string \<Rightarrow> string \<Rightarrow> issue" where
  "E012 line_no sid p msg = mk_issue ''ERROR'' ''E012_BAD_FIELD_TYPE'' line_no sid p msg"

definition E003_MESSAGES_NOT_LIST :: "nat \<Rightarrow> string \<Rightarrow> issue" where
  "E003_MESSAGES_NOT_LIST line_no sid = E003 line_no sid ''messages'' ''`messages` must be a list.''"

text \<open>One typed content item under \<^verbatim>\<open>--strict-typed\<close>, at path \<open>p\<close>.\<close>

definition validate_item :: "nat \<Rightarrow> string \<Rightarrow> string \<Rightarrow> json \<Rightarrow> issue list" where
  "validate_item line_no sid p it =
     (if \<not> is_dict it then [E003 line_no sid p ''Typed content item must be an object.'']
      else let t = get it ''type'' in
        if \<not> truthy t then [E003 line_no sid p ''Typed content item missing key `type`.'']
        else if t = JStr ''text'' then
          (if \<not> is_str (get it ''text'')
           then [E012 line_no sid (p @ ''.text'') ''type='text' field 'text' must be str.'']
           else [])
        else if t = JStr ''image'' then
          (if \<not> has_key it ''image''
           then [E011 line_no sid p ''type='image' missing required fields: ['image']'']
           else [])
        else [])"

fun validate_items :: "nat \<Rightarrow> string \<Rightarrow> string \<Rightarrow> nat \<Rightarrow> json list \<Rightarrow> issue list" where
  "validate_items line_no sid base ci [] = []"
| "validate_items line_no sid base ci (it # its) =
     validate_item line_no sid (base @ ''.content['' @ str_nat ci @ '']'') it
       @ validate_items line_no sid base (Suc ci) its"

definition validate_content :: "nat \<Rightarrow> string \<Rightarrow> string \<Rightarrow> bool \<Rightarrow> json \<Rightarrow> issue list" where
  "validate_content line_no sid base strict_typed content =
     (if strict_typed then
        (case content of
           JList its \<Rightarrow> validate_items line_no sid base 0 its
         | _ \<Rightarrow> [E003 line_no sid (base @ ''.content'')
                  ''With --strict-typed, `content` must be a list of typed items.''])
      else if \<not> (is_str content \<or> is_list content \<or> is_dict content)
        then [E012 line_no sid (base @ ''.content'') ''content must be str or typed list/object.'']
        else [])"

text \<open>One message at index \<open>mi\<close>. \<^verbatim>\<open>role not in _ALLOWED_ROLES\<close> hashes the role.\<close>

definition validate_message :: "nat \<Rightarrow> string \<Rightarrow> bool \<Rightarrow> nat \<Rightarrow> json \<Rightarrow> py_error + issue list" where
  "validate_message line_no sid strict_typed mi m =
     (let base = ''messages['' @ str_nat mi @ '']'' in
      if \<not> is_dict m then Inr [E003 line_no sid base ''Each message must be an object.'']
      else let role = get m ''role'' in
        if unhashable role then Inl TypeError
        else let role_issues =
                   (if role \<notin> ALLOWED_ROLES
                    then [E003 line_no sid (base @ ''.role'') (''Invalid role: '' @ py_repr role @ ''.'')] else [])
        in if \<not> has_key m ''content''
           then Inr (role_issues @ [E003 line_no sid (base @ ''.content'')
                                      ''Missing required field `content`.''])
           else Inr (role_issues @ validate_content line_no sid base strict_typed (get m ''content'')))"

fun validate_each :: "nat \<Rightarrow> string \<Rightarrow> bool \<Rightarrow> nat \<Rightarrow> json list \<Rightarrow> py_error + issue list" where
  "validate_each line_no sid strict_typed mi [] = Inr []"
| "validate_each line_no sid strict_typed mi (m # ms) =
     (case validate_message line_no sid strict_typed mi m of
        Inl e \<Rightarrow> Inl e
      | Inr here \<Rightarrow>
          (case validate_each line_no sid strict_typed (Suc mi) ms of
             Inl e \<Rightarrow> Inl e
           | Inr later \<Rightarrow> Inr (here @ later)))"

definition validate_messages_schema :: "json \<Rightarrow> nat \<Rightarrow> string \<Rightarrow> bool \<Rightarrow> py_error + issue list" where
  "validate_messages_schema messages line_no sid strict_typed =
     (case messages of
        JList ms \<Rightarrow> validate_each line_no sid strict_typed 0 ms
      | _ \<Rightarrow> Inr [E003_MESSAGES_NOT_LIST line_no sid])"

section \<open>Mode-specific checks\<close>

text \<open>\<^verbatim>\<open>any(m.get("role") == "assistant" for m in messages)\<close> stops at the first assistant
  message; a message before it that is no dict raises. The result is the index of the
  first assistant message, which is what \<^verbatim>\<open>next(...)\<close> then finds again.\<close>

fun first_assistant :: "nat \<Rightarrow> json list \<Rightarrow> py_error + nat option" where
  "first_assistant i [] = Inr None"
| "first_assistant i (m # ms) =
     (if \<not> is_dict m then Inl AttributeError
      else if get m ''role'' = JStr ''assistant'' then Inr (Some i)
      else first_assistant (Suc i) ms)"

definition mode_specific_checks :: "json list \<Rightarrow> nat \<Rightarrow> string \<Rightarrow> string \<Rightarrow> py_error + issue list" where
  "mode_specific_checks messages line_no sid mode =
     (let mode' = lower (if mode = [] then ''train'' else mode) in
      case first_assistant 0 messages of
        Inl e \<Rightarrow> Inl e
      | Inr idx \<Rightarrow>
          if mode' = ''infer'' then
            (case idx of
               Some i \<Rightarrow> Inr [mk_issue ''ERROR'' ''E001_INFER_HAS_ASSISTANT'' line_no sid
                               (''messages['' @ str_nat i @ ''].role'')
                               ''Inference sample contains an assistant turn (risk of label leakage / wrong prompt).'']
             | None \<Rightarrow> Inr [])
          else
            (case idx of
               None \<Rightarrow> Inr [mk_issue ''ERROR'' ''E001_TRAIN_MISSING_ASSISTANT'' line_no sid ''messages''
                              ''Train sample contains no assistant turn (no supervision label).'']
             | Some i \<Rightarrow> Inr []))"

section \<open>Linting a JSONL file\<close>

text \<open>
  A file is the list of its lines, in order, each without its line terminator; line
  numbers start at 1. \<^verbatim>\<open>json.loads\<close> and \<^verbatim>\<open>json.dumps\<close> belong to Python's library:
  the functions below take them as the parameters \<open>loads\<close> (with \<open>None\<close> for a raised
  exception) and \<open>dumps\<close>. The exception text that the source appends to
  \<^verbatim>\<open>Invalid JSON: \<close> is left out.
\<close>

definition E004_BAD_JSON :: "nat \<Rightarrow> issue" where
  "E004_BAD_JSON line_no =
     mk_issue ''ERROR'' ''E004_BAD_JSON'' line_no (''line_'' @ str_nat line_no) ''$'' ''Invalid JSON: ''"

text \<open>\<^verbatim>\<open>str(obj.get("id", f"line_{line_no}"))\<close>.\<close>

definition sample_id_of :: "(string \<times> json) list \<Rightarrow> nat \<Rightarrow> string" where
  "sample_id_of obj line_no =
     py_str (case map_of obj ''id'' of Some v \<Rightarrow> v | None \<Rightarrow> JStr (''line_'' @ str_nat line_no))"

definition SKIP_CODES :: "string set" where
  "SKIP_CODES = {''E003_SCHEMA_MISMATCH'', ''E004_BAD_JSON'', ''E012_BAD_FIELD_TYPE''}"

text \<open>The deeper checks on a record whose \<^verbatim>\<open>messages\<close> passed the \<^verbatim>\<open>assert\<close>.\<close>

definition deeper_checks :: "json list \<Rightarrow> nat \<Rightarrow> string \<Rightarrow> profile \<Rightarrow> string \<Rightarrow> py_error + issue list" where
  "deeper_checks ms line_no sid profile_obj mode =
     (case system_presence_and_nonempty ms line_no sid profile_obj of
        Inl e \<Rightarrow> Inl e
      | Inr sys \<Rightarrow>
          (case mode_specific_checks ms line_no sid mode of
             Inl e \<Rightarrow> Inl e
           | Inr md \<Rightarrow> Inr (sys @ md)))"

text \<open>The body of the loop of \<^verbatim>\<open>lint_jsonl\<close> for the record decoded from line \<open>line_no\<close>.
  \<^verbatim>\<open>obj.get\<close> raises on a decoded value that is no dict.\<close>

definition lint_record :: "string \<Rightarrow> profile \<Rightarrow> bool \<Rightarrow> nat \<Rightarrow> json \<Rightarrow> py_error + issue list" where
  "lint_record mode profile_obj strict_typed line_no v =
     (case v of
        JObj obj \<Rightarrow>
          (let sid = sample_id_of obj line_no;
               messages = get (JObj obj) ''messages''
           in case validate_messages_schema messages line_no sid strict_typed of
                Inl e \<Rightarrow> Inl e
              | Inr sch \<Rightarrow>
                  if sch \<noteq> [] \<and> (\<exists>i \<in> set sch. code i \<in> SKIP_CODES) \<and> \<not> is_list messages
                  then Inr sch
                  else (case messages of
                          JList ms \<Rightarrow>
                            (case deeper_checks ms line_no sid profile_obj mode of
                               Inl e \<Rightarrow> Inl e
                             | Inr deep \<Rightarrow> Inr (sch @ deep))
                        | _ \<Rightarrow> Inl AssertionError))
      | _ \<Rightarrow> Inl AttributeError)"

definition lint_line ::
    "(string \<Rightarrow> json option) \<Rightarrow> string \<Rightarrow> profile \<Rightarrow> bool \<Rightarrow> nat \<Rightarrow> string \<Rightarrow> py_error + issue list" where
  "lint_line loads mode profile_obj strict_typed line_no text_line =
     (let stripped = strip text_line in
      if stripped = [] then Inr []
      else case loads stripped of
             None \<Rightarrow> Inr [E004_BAD_JSON line_no]
           | Some v \<Rightarrow> lint_record mode profile_obj strict_typed line_no v)"

fun lint_lines ::
    "(string \<Rightarrow> json option) \<Rightarrow> string \<Rightarrow> profile \<Rightarrow> bool \<Rightarrow> nat \<Rightarrow> string list \<Rightarrow> py_error + issue list" where
  "lint_lines loads mode profile_obj strict_typed line_no [] = Inr []"
| "lint_lines loads mode profile_obj strict_typed line_no (l # rest) =
     (case lint_line loads mode profile_obj strict_typed line_no l of
        Inl e \<Rightarrow> Inl e
      | Inr here \<Rightarrow>
          (case lint_lines loads mode profile_obj strict_typed (Suc line_no) rest of
             Inl e \<Rightarrow> Inl e
           | Inr later \<Rightarrow> Inr (here @ later)))"

definition lint_jsonl ::
    "(string \<Rightarrow> json option) \<Rightarrow> string list \<Rightarrow> string \<Rightarrow> profile \<Rightarrow> bool \<Rightarrow> py_error + issue list" where
  "lint_jsonl loads file mode profile_obj strict_typed =
     lint_lines loads mode profile_obj strict_typed 1 file"

section \<open>Safe fixes\<close>

definition I901_FIX_ROLE_USR :: "nat \<Rightarrow> string \<Rightarrow> issue" where
  "I901_FIX_ROLE_USR line_no sid =
     mk_issue ''INFO'' ''I901_FIX_ROLE_USR'' line_no sid ''messages[].role'' ''Fixed role 'usr' -> 'user'.''"

definition I902_FIX_ADD_TYPE_TEXT :: "nat \<Rightarrow> string \<Rightarrow> issue" where
  "I902_FIX_ADD_TYPE_TEXT line_no sid =
     mk_issue ''INFO'' ''I902_FIX_ADD_TYPE_TEXT'' line_no sid ''messages[].content[].type''
       ''Added missing type='text' for item with 'text' field.''"

text \<open>\<^verbatim>\<open>d[k] = v\<close> on a dict: an existing key keeps its place, a new key goes last.\<close>

fun set_key :: "json \<Rightarrow> string \<Rightarrow> json \<Rightarrow> json" where
  "set_key (JObj kvs) k v = JObj (AList.update k v kvs)"
| "set_key x k v = x"

text \<open>The second rule, on one content item: the item and the issues it adds.\<close>

definition needs_type :: "json \<Rightarrow> bool" where
  "needs_type it = (is_dict it \<and> \<not> has_key it ''type'' \<and> has_key it ''text'')"

definition fix_item :: "nat \<Rightarrow> string \<Rightarrow> json \<Rightarrow> json \<times> issue list" where
  "fix_item line_no sid it =
     (if needs_type it
      then (set_key it ''type'' (JStr ''text''), [I902_FIX_ADD_TYPE_TEXT line_no sid])
      else (it, []))"

fun fix_items :: "nat \<Rightarrow> string \<Rightarrow> json list \<Rightarrow> json list \<times> issue list" where
  "fix_items line_no sid [] = ([], [])"
| "fix_items line_no sid (it # its) =
     (let (it', here) = fix_item line_no sid it;
          (its', later) = fix_items line_no sid its
      in (it' # its', here @ later))"

text \<open>Both rules on one message. The items of \<^verbatim>\<open>m["content"]\<close> are changed in place,
  which the model writes as storing the new list under \<^verbatim>\<open>content\<close>.\<close>

definition needs_role :: "json \<Rightarrow> bool" where
  "needs_role m = (get m ''role'' = JStr ''usr'')"

definition fix_message :: "bool \<Rightarrow> nat \<Rightarrow> string \<Rightarrow> json \<Rightarrow> json \<times> issue list" where
  "fix_message strict_typed line_no sid m =
     (if \<not> is_dict m then (m, [])
      else let (m1, role_fix) =
                 (if needs_role m
                  then (set_key m ''role'' (JStr ''user''), [I901_FIX_ROLE_USR line_no sid])
                  else (m, []))
        in (case get m1 ''content'' of
              JList its \<Rightarrow>
                if strict_typed
                then (let (its', type_fix) = fix_items line_no sid its
                      in (set_key m1 ''content'' (JList its'), role_fix @ type_fix))
                else (m1, role_fix)
            | _ \<Rightarrow> (m1, role_fix)))"

fun fix_messages :: "bool \<Rightarrow> nat \<Rightarrow> string \<Rightarrow> json list \<Rightarrow> json list \<times> issue list" where
  "fix_messages strict_typed line_no sid [] = ([], [])"
| "fix_messages strict_typed line_no sid (m # ms) =
     (let (m', here) = fix_message strict_typed line_no sid m;
          (ms', later) = fix_messages strict_typed line_no sid ms
      in (m' # ms', here @ later))"

text \<open>The record decoded from line \<open>line_no\<close>: the object that is written back, and the
  fixes logged. \<^verbatim>\<open>obj.get\<close> raises on a decoded value that is no dict.\<close>

definition fix_record :: "bool \<Rightarrow> nat \<Rightarrow> json \<Rightarrow> py_error + json \<times> issue list" where
  "fix_record strict_typed line_no v =
     (case v of
        JObj obj \<Rightarrow>
          (let sid = sample_id_of obj line_no in
           case get (JObj obj) ''messages'' of
             JList ms \<Rightarrow>
               (let (ms', fixes) = fix_messages strict_typed line_no sid ms
                in Inr (set_key (JObj obj) ''messages'' (JList ms'), fixes))
           | _ \<Rightarrow> Inr (JObj obj, []))
      | _ \<Rightarrow> Inl AttributeError)"

text \<open>One line: the lines written to the output (none or one) and the issues.\<close>

definition fix_line ::
    "(string \<Rightarrow> json option) \<Rightarrow> (json \<Rightarrow> string) \<Rightarrow> bool \<Rightarrow> nat \<Rightarrow> string
       \<Rightarrow> py_error + string list \<times> issue list" where
  "fix_line loads dumps strict_typed line_no raw =
     (if strip raw = [] then Inr ([], [])
      else case loads raw of
             None \<Rightarrow> Inr ([], [E004_BAD_JSON line_no])
           | Some v \<Rightarrow>
               (case fix_record strict_typed line_no v of
                  Inl e \<Rightarrow> Inl e
                | Inr (obj', fixes) \<Rightarrow> Inr ([dumps obj'], fixes)))"

fun fix_lines ::
    "(string \<Rightarrow> json option) \<Rightarrow> (json \<Rightarrow> string) \<Rightarrow> bool \<Rightarrow> nat \<Rightarrow> string list
       \<Rightarrow> py_error + string list \<times> issue list" where
  "fix_lines loads dumps strict_typed line_no [] = Inr ([], [])"
| "fix_lines loads dumps strict_typed line_no (raw # rest) =
     (case fix_line loads dumps strict_typed line_no raw of
        Inl e \<Rightarrow> Inl e
      | Inr (out, here) \<Rightarrow>
          (case fix_lines loads dumps strict_typed (Suc line_no) rest of
             Inl e \<Rightarrow> Inl e
           | Inr (out', later) \<Rightarrow> Inr (out @ out', here @ later)))"

text \<open>\<^verbatim>\<open>fix_jsonl\<close>: the lines of the output file and the issues; \<open>Inl\<close> when the pass
  is aborted by an exception.\<close>

definition fix_jsonl ::
    "(string \<Rightarrow> json option) \<Rightarrow> (json \<Rightarrow> string) \<Rightarrow> string list \<Rightarrow> bool
       \<Rightarrow> py_error + string list \<times> issue list" where
  "fix_jsonl loads dumps file strict_typed = fix_lines loads dumps strict_typed 1 file"

section \<open>A JSON codec for concrete files\<close>

text \<open>
  A model of \<^verbatim>\<open>json.dumps(obj, ensure_ascii=False)\<close> and of \<^verbatim>\<open>json.loads\<close> on the values
  of type \<open>json\<close>, used to run the functions above on concrete files. The encoder writes
  \<^verbatim>\<open>", "\<close> between items and \<^verbatim>\<open>": "\<close> after a key, escapes the double quote, the
  backslash and the control characters, and leaves every other character as it is. The
  decoder accepts the JSON grammar without fractions, exponents and the constants
  \<^verbatim>\<open>NaN\<close> and \<^verbatim>\<open>Infinity\<close>, and with \<^verbatim>\<open>\uXXXX\<close> below 256; a repeated key keeps its
  first place and its last value.
\<close>

definition escape_char :: "char \<Rightarrow> string" where
  "escape_char c =
     (if c = CHR 0x22 then [CHR 0x5C, CHR 0x22]
      else if c = CHR 0x5C then [CHR 0x5C, CHR 0x5C]
      else if c = CHR 0x0A then [CHR 0x5C, CHR ''n'']
      else if c = CHR 0x0D then [CHR 0x5C, CHR ''r'']
      else if c = CHR 0x09 then [CHR 0x5C, CHR ''t'']
      else if c = CHR 0x08 then [CHR 0x5C, CHR ''b'']
      else if c = CHR 0x0C then [CHR 0x5C, CHR ''f'']
      else if (of_char c :: nat) < 32
        then [CHR 0x5C, CHR ''u'', CHR ''0'', CHR ''0'',
              hex_digit (of_char c div 16), hex_digit (of_char c mod 16)]
      else [c])"

definition dumps_str :: "string \<Rightarrow> string" where
  "dumps_str s = [CHR 0x22] @ concat (map escape_char s) @ [CHR 0x22]"

fun json_dumps :: "json \<Rightarrow> string"
  and dumps_list :: "json list \<Rightarrow> string list"
  and dumps_items :: "(string \<times> json) list \<Rightarrow> string list" where
  "json_dumps JNull = ''null''"
| "json_dumps (JBool b) = (if b then ''true'' else ''false'')"
| "json_dumps (JInt i) = str_int i"
| "json_dumps (JStr s) = dumps_str s"
| "json_dumps (JList xs) = ''['' @ join '', '' (dumps_list xs) @ '']''"
| "json_dumps (JObj kvs) = ''{'' @ join '', '' (dumps_items kvs) @ ''}''"
| "dumps_list [] = []"
| "dumps_list (x # xs) = json_dumps x # dumps_list xs"
| "dumps_items [] = []"
| "dumps_items (kv # kvs) = (dumps_str (fst kv) @ '': '' @ json_dumps (snd kv)) # dumps_items kvs"

definition is_ws :: "char \<Rightarrow> bool" where
  "is_ws c = (c = CHR '' '' \<or> c = CHR 0x09 \<or> c = CHR 0x0A \<or> c = CHR 0x0D)"

definition skip_ws :: "string \<Rightarrow> string" where
  "skip_ws s = dropWhile is_ws s"

definition is_digit :: "char \<Rightarrow> bool" where
  "is_digit c = (48 \<le> (of_char c :: nat) \<and> (of_char c :: nat) \<le> 57)"

definition hex_val :: "char \<Rightarrow> nat option" where
  "hex_val c = (let n = (of_char c :: nat) in
     if 48 \<le> n \<and> n \<le> 57 then Some (n - 48)
     else if 97 \<le> n \<and> n \<le> 102 then Some (n - 87)
     else if 65 \<le> n \<and> n \<le> 70 then Some (n - 55)
     else None)"

definition simple_escape :: "char \<Rightarrow> char option" where
  "simple_escape e =
     (if e = CHR 0x22 then Some (CHR 0x22)
      else if e = CHR 0x5C then Some (CHR 0x5C)
      else if e = CHR ''/'' then Some (CHR ''/'')
      else if e = CHR ''b'' then Some (CHR 0x08)
      else if e = CHR ''f'' then Some (CHR 0x0C)
      else if e = CHR ''n'' then Some (CHR 0x0A)
      else if e = CHR ''r'' then Some (CHR 0x0D)
      else if e = CHR ''t'' then Some (CHR 0x09)
      else None)"

definition unicode_escape :: "char \<Rightarrow> char \<Rightarrow> char \<Rightarrow> char \<Rightarrow> char option" where
  "unicode_escape a b c d =
     (case (hex_val a, hex_val b, hex_val c, hex_val d) of
        (Some x, Some y, Some z, Some w) \<Rightarrow>
          (if x = 0 \<and> y = 0 then Some (char_of (16 * z + w)) else None)
      | _ \<Rightarrow> None)"

definition cons_text :: "char \<Rightarrow> (string \<times> string) option \<Rightarrow> (string \<times> string) option" where
  "cons_text c r = (case r of None \<Rightarrow> None | Some (s, rest) \<Rightarrow> Some (c # s, rest))"

text \<open>The characters of a string literal after its opening quote: the text and what
  follows the closing quote.\<close>

fun parse_chars :: "string \<Rightarrow> (string \<times> string) option" where
  "parse_chars [] = None"
| "parse_chars (c # cs) =
     (if c = CHR 0x22 then Some ([], cs)
      else if c = CHR 0x5C then
        (case cs of
           [] \<Rightarrow> None
         | e # cs1 \<Rightarrow>
             if e = CHR ''u'' then
               (case cs1 of
                  a # b # x # y # cs2 \<Rightarrow>
                    (case unicode_escape a b x y of
                       None \<Rightarrow> None
                     | Some u \<Rightarrow> cons_text u (parse_chars cs2))
                | _ \<Rightarrow> None)
             else (case simple_escape e of
                     None \<Rightarrow> None
                   | Some u \<Rightarrow> cons_text u (parse_chars cs1)))
      else if (of_char c :: nat) < 32 then None
      else cons_text c (parse_chars cs))"

definition digits_val :: "string \<Rightarrow> nat" where
  "digits_val ds = foldl (\<lambda>a c. 10 * a + (of_char c - 48)) 0 ds"

text \<open>An integer literal \<^verbatim>\<open>-?(0|[1-9][0-9]*)\<close> that is not followed by a fraction or an
  exponent.\<close>

definition parse_nat :: "string \<Rightarrow> (nat \<times> string) option" where
  "parse_nat s =
     (case s of
        [] \<Rightarrow> None
      | c # cs \<Rightarrow>
          if \<not> is_digit c then None
          else let (ds, rest) = (if c = CHR ''0'' then ([c], cs)
                                 else (c # takeWhile is_digit cs, dropWhile is_digit cs))
          in (case rest of
                r # _ \<Rightarrow> if r = CHR ''.'' \<or> r = CHR ''e'' \<or> r = CHR ''E'' then None
                         else Some (digits_val ds, rest)
              | [] \<Rightarrow> Some (digits_val ds, rest)))"

definition parse_int :: "string \<Rightarrow> (json \<times> string) option" where
  "parse_int s =
     (case s of
        [] \<Rightarrow> None
      | c # cs \<Rightarrow>
          if c = CHR ''-''
          then (case parse_nat cs of None \<Rightarrow> None | Some (n, rest) \<Rightarrow> Some (JInt (- int n), rest))
          else (case parse_nat s of None \<Rightarrow> None | Some (n, rest) \<Rightarrow> Some (JInt (int n), rest)))"

definition parse_word :: "string \<Rightarrow> json \<Rightarrow> string \<Rightarrow> (json \<times> string) option" where
  "parse_word w v s = (if prefix w s then Some (v, drop (length w) s) else None)"

text \<open>\<^verbatim>\<open>dict(pairs)\<close>.\<close>

definition dict_of_pairs :: "(string \<times> json) list \<Rightarrow> (string \<times> json) list" where
  "dict_of_pairs pairs = foldl (\<lambda>d kv. AList.update (fst kv) (snd kv) d) [] pairs"

text \<open>The recursive descent, with a bound on the calls that \<open>json_loads\<close> sets from the
  length of the text.\<close>

fun parse_value :: "nat \<Rightarrow> string \<Rightarrow> (json \<times> string) option"
  and parse_elements :: "nat \<Rightarrow> string \<Rightarrow> (json list \<times> string) option"
  and parse_members :: "nat \<Rightarrow> string \<Rightarrow> ((string \<times> json) list \<times> string) option" where
  "parse_value 0 s = None"
| "parse_value (Suc k) s =
     (case skip_ws s of
        [] \<Rightarrow> None
      | c # cs \<Rightarrow>
          if c = CHR 0x22 then
            (case parse_chars cs of None \<Rightarrow> None | Some (t, rest) \<Rightarrow> Some (JStr t, rest))
          else if c = CHR ''['' then
            (case skip_ws cs of
               [] \<Rightarrow> None
             | d # ds \<Rightarrow>
                 if d = CHR '']'' then Some (JList [], ds)
                 else (case parse_elements k cs of
                         None \<Rightarrow> None
                       | Some (vs, rest) \<Rightarrow> Some (JList vs, rest)))
          else if c = CHR ''{'' then
            (case skip_ws cs of
               [] \<Rightarrow> None
             | d # ds \<Rightarrow>
                 if d = CHR ''}'' then Some (JObj [], ds)
                 else (case parse_members k cs of
                         None \<Rightarrow> None
                       | Some (kvs, rest) \<Rightarrow> Some (JObj (dict_of_pairs kvs), rest)))
          else if c = CHR ''n'' then parse_word ''null'' JNull (c # cs)
          else if c = CHR ''t'' then parse_word ''true'' (JBool True) (c # cs)
          else if c = CHR ''f'' then parse_word ''false'' (JBool False) (c # cs)
          else parse_int (c # cs))"
| "parse_elements 0 s = None"
| "parse_elements (Suc k) s =
     (case parse_value k s of
        None \<Rightarrow> None
      | Some (v, rest) \<Rightarrow>
          (case skip_ws rest of
             [] \<Rightarrow> None
           | c # cs \<Rightarrow>
               if c = CHR '','' then
                 (case parse_elements k cs of
                    None \<Rightarrow> None
                  | Some (vs, rest') \<Rightarrow> Some (v # vs, rest'))
               else if c = CHR '']'' then Some ([v], cs)
               else None))"
| "parse_members 0 s = None"
| "parse_members (Suc k) s =
     (case skip_ws s of
        [] \<Rightarrow> None
      | q # cs \<Rightarrow>
          if q \<noteq> CHR 0x22 then None
          else (case parse_chars cs of
                  None \<Rightarrow> None
                | Some (key, rest) \<Rightarrow>
                    (case skip_ws rest of
                       [] \<Rightarrow> None
                     | c # cs1 \<Rightarrow>
                         if c \<noteq> CHR '':'' then None
                         else (case parse_value k cs1 of
                                 None \<Rightarrow> None
                               | Some (v, rest1) \<Rightarrow>
                                   (case skip_ws rest1 of
                                      [] \<Rightarrow> None
                                    | d # ds \<Rightarrow>
                                        if d = CHR '','' then
                                          (case parse_members k ds of
                                             None \<Rightarrow> None
                                           | Some (kvs, rest2) \<Rightarrow> Some ((key, v) # kvs, rest2))
                                        else if d = CHR ''}'' then Some ([(key, v)], ds)
                                        else None)))))"

definition json_loads :: "string \<Rightarrow> json option" where
  "json_loads s =
     (case parse_value (2 * length s + 2) s of
        None \<Rightarrow> None
      | Some (v, rest) \<Rightarrow> if skip_ws rest = [] then Some v else None)"

section \<open>Notions used to state the properties of the safe-fix pass\<close>



text \<open>The objects that a pass over the lines numbered from \<open>line_no\<close> hands to
  \<^verbatim>\<open>json.dumps\<close>, in order.\<close>

fun written_objects :: "(string \<Rightarrow> json option) \<Rightarrow> bool \<Rightarrow> nat \<Rightarrow> string list \<Rightarrow> json list" where
  "written_objects loads strict_typed line_no [] = []"
| "written_objects loads strict_typed line_no (raw # rest) =
     (if strip raw = [] then []
      else case loads raw of
             None \<Rightarrow> []
           | Some v \<Rightarrow>
               (case fix_record strict_typed line_no v of
                  Inl e \<Rightarrow> []
                | Inr (obj', fixes) \<Rightarrow> [obj']))
     @ written_objects loads strict_typed (Suc line_no) rest"

text \<open>What the codec owes for a written object to be read back by a second pass: its
  text holds no line terminator, is not blank, and decodes to the same object.\<close>

definition reads_back :: "(string \<Rightarrow> json option) \<Rightarrow> (json \<Rightarrow> string) \<Rightarrow> json \<Rightarrow> bool" where
  "reads_back loads dumps v =
     (CHR 0x0A \<notin> set (dumps v) \<and> CHR 0x0D \<notin> set (dumps v)
      \<and> strip (dumps v) \<noteq> [] \<and> loads (dumps v) = Some v)"

section \<open>Render-level check of the system message\<close>

text \<open>
  The loaded plugin function, seen through the two ways in which the source calls it:
  \<^verbatim>\<open>render_fn(messages=messages, sample=obj)\<close> and \<^verbatim>\<open>render_fn(messages)\<close>. Each call
  returns the prompt, already passed through \<^verbatim>\<open>str\<close>, or raises. A function declared as
  \<^verbatim>\<open>render(messages)\<close> raises \<^verbatim>\<open>TypeError\<close> on the first call. Loading the plugin from
  its path happens before the loop and is not part of the model.
\<close>

record render_fn =
  call_kw :: "json list \<Rightarrow> json \<Rightarrow> py_error + string"
  call_pos :: "json list \<Rightarrow> py_error + string"

definition E901_RENDER_PLUGIN_ERROR :: "nat \<Rightarrow> string \<Rightarrow> issue" where
  "E901_RENDER_PLUGIN_ERROR line_no sid =
     mk_issue ''ERROR'' ''E901_RENDER_PLUGIN_ERROR'' line_no sid ''messages'' ''Render plugin error: ''"

text \<open>The \<^verbatim>\<open>try\<close> statement around the render call. The outer \<open>Inl\<close> is an exception that
  leaves the statement; inside, \<open>Inl\<close> is the issue of the \<^verbatim>\<open>except Exception\<close> branch and
  \<open>Inr\<close> the prompt. The call in the \<^verbatim>\<open>except TypeError\<close> branch is not itself guarded:
  the handlers of a \<^verbatim>\<open>try\<close> cover its body only.\<close>

definition render_prompt ::
    "render_fn \<Rightarrow> json list \<Rightarrow> json \<Rightarrow> nat \<Rightarrow> string \<Rightarrow> py_error + (issue + string)" where
  "render_prompt render ms obj line_no sid =
     (case call_kw render ms obj of
        Inr prompt \<Rightarrow> Inr (Inr prompt)
      | Inl e \<Rightarrow>
          if e = TypeError then
            (case call_pos render ms of
               Inr prompt \<Rightarrow> Inr (Inr prompt)
             | Inl e' \<Rightarrow> Inl e')
          else Inr (Inl (E901_RENDER_PLUGIN_ERROR line_no sid)))"

text \<open>\<^verbatim>\<open>needle in text\<close> on strings.\<close>

fun contains :: "string \<Rightarrow> string \<Rightarrow> bool" where
  "contains needle [] = (needle = [])"
| "contains needle (c # cs) = (prefix needle (c # cs) \<or> contains needle cs)"

text \<open>\<^verbatim>\<open>_issue\<close> with the level of the profile: the test \<^verbatim>\<open>level not in _LEVEL_ORDER\<close>
  hashes the level.\<close>

definition E002_SYSTEM_NOT_VISIBLE :: "json \<Rightarrow> nat \<Rightarrow> string \<Rightarrow> py_error + issue" where
  "E002_SYSTEM_NOT_VISIBLE lv line_no sid =
     (if unhashable lv then Inl TypeError
      else Inr (mk_issue (case lv of JStr s \<Rightarrow> s | _ \<Rightarrow> ''ERROR'') ''E002_SYSTEM_NOT_VISIBLE''
                  line_no sid ''messages''
                  ''System message exists but is not present in the rendered prompt (likely dropped by the pipeline).''))"

definition verify_record :: "render_fn \<Rightarrow> profile \<Rightarrow> bool \<Rightarrow> nat \<Rightarrow> json \<Rightarrow> py_error + issue list" where
  "verify_record render profile_obj strict_typed line_no v =
     (case v of
        JObj obj \<Rightarrow>
          (let sid = sample_id_of obj line_no;
               messages = get (JObj obj) ''messages''
           in case validate_messages_schema messages line_no sid strict_typed of
                Inl e \<Rightarrow> Inl e
              | Inr sch \<Rightarrow>
                  (case messages of
                     JList ms \<Rightarrow>
                       (case system_presence_and_nonempty ms line_no sid profile_obj of
                          Inl e \<Rightarrow> Inl e
                        | Inr sys \<Rightarrow>
                            if \<not> list_all is_dict ms then Inl AttributeError
                            else let sys_text = system_text ms in
                              if \<not> truthy (system_visible profile_obj) then Inr (sch @ sys)
                              else (case render_prompt render ms (JObj obj) line_no sid of
                                      Inl e \<Rightarrow> Inl e
                                    | Inr (Inl plugin_error) \<Rightarrow> Inr (sch @ sys @ [plugin_error])
                                    | Inr (Inr prompt) \<Rightarrow>
                                        if strip sys_text \<noteq> [] \<and> \<not> contains (strip sys_text) prompt
                                        then (case E002_SYSTEM_NOT_VISIBLE
                                                     (system_invisible_level profile_obj) line_no sid of
                                                Inl e \<Rightarrow> Inl e
                                              | Inr hidden \<Rightarrow> Inr (sch @ sys @ [hidden]))
                                        else Inr (sch @ sys)))
                   | _ \<Rightarrow> Inr sch))
      | _ \<Rightarrow> Inl AttributeError)"

definition verify_line ::
    "(string \<Rightarrow> json option) \<Rightarrow> render_fn \<Rightarrow> profile \<Rightarrow> bool \<Rightarrow> nat \<Rightarrow> string \<Rightarrow> py_error + issue list" where
  "verify_line loads render profile_obj strict_typed line_no text_line =
     (let stripped = strip text_line in
      if stripped = [] then Inr []
      else case loads stripped of
             None \<Rightarrow> Inr [E004_BAD_JSON line_no]
           | Some v \<Rightarrow> verify_record render profile_obj strict_typed line_no v)"

fun verify_lines ::
    "(string \<Rightarrow> json option) \<Rightarrow> render_fn \<Rightarrow> profile \<Rightarrow> bool \<Rightarrow> nat \<Rightarrow> string list \<Rightarrow> py_error + issue list" where
  "verify_lines loads render profile_obj strict_typed line_no [] = Inr []"
| "verify_lines loads render profile_obj strict_typed line_no (l # rest) =
     (case verify_line loads render profile_obj strict_typed line_no l of
        Inl e \<Rightarrow> Inl e
      | Inr here \<Rightarrow>
          (case verify_lines loads render profile_obj strict_typed (Suc line_no) rest of
             Inl e \<Rightarrow> Inl e
           | Inr later \<Rightarrow> Inr (here @ later)))"

definition verify_system_visibility_jsonl ::
    "(string \<Rightarrow> json option) \<Rightarrow> string list \<Rightarrow> profile \<Rightarrow> render_fn \<Rightarrow> bool \<Rightarrow> py_error + issue list" where
  "verify_system_visibility_jsonl loads file profile_obj render strict_typed =
     verify_lines loads render profile_obj strict_typed 1 file"

section \<open>The profile registry\<close>




definition ends_with :: "string \<Rightarrow> string \<Rightarrow> bool" where
  "ends_with s suf = prefix (rev suf) (rev s)"







section \<open>Dataset rows\<close>

text \<open>
  A value in a row of a dataset: \<^verbatim>\<open>None\<close>, \<^verbatim>\<open>bool\<close>, \<^verbatim>\<open>int\<close>, a finite \<^verbatim>\<open>float\<close>, \<^verbatim>\<open>str\<close>,
  \<^verbatim>\<open>list\<close>, \<^verbatim>\<open>dict\<close>, or a decoded image with its \<^verbatim>\<open>size\<close>. A row is a dict from column
  names to values. A declared feature is an image, a nested struct or some other leaf.
  The text that \<^verbatim>\<open>str()\<close> gives for a value is produced by the runtime (for a float or an
  image it is not determined by the model), so the checks take it as the parameter
  \<open>str_cell\<close>.
\<close>

datatype cell =
    CNone
  | CBool bool
  | CInt int
  | CFloat real
  | CStr string
  | CList "cell list"
  | CDict "(string \<times> cell) list"
  | CImage int int

datatype feature =
    FImage
  | FValue
  | FStruct "(string \<times> feature) list"

type_synonym row = "(string \<times> cell) list"

text \<open>\<^verbatim>\<open>row.get(k, None)\<close>; \<^verbatim>\<open>isinstance(x, int)\<close>, which holds for a \<^verbatim>\<open>bool\<close> too, with
  \<^verbatim>\<open>int(x)\<close>; \<^verbatim>\<open>isinstance(x, (int, float))\<close> with the value that comparisons use.\<close>

definition cget :: "row \<Rightarrow> string \<Rightarrow> cell" where
  "cget r k = (case map_of r k of Some v \<Rightarrow> v | None \<Rightarrow> CNone)"

fun is_int :: "cell \<Rightarrow> bool" where
  "is_int (CInt _) = True"
| "is_int (CBool _) = True"
| "is_int _ = False"

fun int_of :: "cell \<Rightarrow> int" where
  "int_of (CInt i) = i"
| "int_of (CBool b) = (if b then 1 else 0)"
| "int_of _ = 0"

fun is_number :: "cell \<Rightarrow> bool" where
  "is_number (CInt _) = True"
| "is_number (CBool _) = True"
| "is_number (CFloat _) = True"
| "is_number _ = False"

fun num_of :: "cell \<Rightarrow> real" where
  "num_of (CInt i) = real_of_int i"
| "num_of (CBool b) = (if b then 1 else 0)"
| "num_of (CFloat x) = x"
| "num_of _ = 0"

section \<open>The stricter dataset check\<close>

record dataset_issue =
  d_level :: string
  d_code :: string
  d_row :: nat
  d_sample_id :: string
  d_path :: string
  d_message :: string

text \<open>\<^verbatim>\<open>s.split(".")\<close> and \<^verbatim>\<open>_get_by_path\<close>, which gives \<^verbatim>\<open>None\<close> as soon as the walk leaves
  the dicts.\<close>

fun split_on :: "char \<Rightarrow> string \<Rightarrow> string list" where
  "split_on sep [] = [[]]"
| "split_on sep (c # cs) =
     (if c = sep then [] # split_on sep cs
      else (case split_on sep cs of
              [] \<Rightarrow> [[c]]
            | w # ws \<Rightarrow> (c # w) # ws))"

fun walk_keys :: "cell \<Rightarrow> string list \<Rightarrow> cell" where
  "walk_keys cur [] = cur"
| "walk_keys (CDict kvs) (k # ks) =
     (case map_of kvs k of None \<Rightarrow> CNone | Some v \<Rightarrow> walk_keys v ks)"
| "walk_keys cur (k # ks) = CNone"

definition get_by_path :: "row \<Rightarrow> string \<Rightarrow> cell" where
  "get_by_path r p = walk_keys (CDict r) (split_on CHR ''.'' p)"

text \<open>\<^verbatim>\<open>_list_leaf_paths\<close> on the features of one nested column.\<close>

fun list_leaf_paths :: "feature \<Rightarrow> string \<Rightarrow> string list"
  and list_leaf_paths_items :: "(string \<times> feature) list \<Rightarrow> string \<Rightarrow> string list" where
  "list_leaf_paths (FStruct kvs) pre = list_leaf_paths_items kvs pre"
| "list_leaf_paths FImage pre = [pre]"
| "list_leaf_paths FValue pre = [pre]"
| "list_leaf_paths_items [] pre = []"
| "list_leaf_paths_items (kv # kvs) pre =
     list_leaf_paths (snd kv) (if pre = [] then fst kv else pre @ ''.'' @ fst kv)
       @ list_leaf_paths_items kvs pre"

fun is_struct :: "feature \<Rightarrow> bool" where
  "is_struct (FStruct _) = True"
| "is_struct _ = False"

definition nested_leaf_paths :: "(string \<times> feature) list \<Rightarrow> string list" where
  "nested_leaf_paths feats =
     concat (map (\<lambda>cf. list_leaf_paths_items [cf] []) (filter (\<lambda>cf. is_struct (snd cf)) feats))"

definition E101_DATASET_NONE_FILLED :: "nat \<Rightarrow> string \<Rightarrow> string \<Rightarrow> dataset_issue" where
  "E101_DATASET_NONE_FILLED i sid p =
     \<lparr> d_level = ''ERROR'', d_code = ''E101_DATASET_NONE_FILLED'', d_row = i, d_sample_id = sid,
       d_path = p,
       d_message = p @ '' is None (likely filled due to missing nested key during cast/save).'' \<rparr>"

definition coordinates_issue ::
    "string \<Rightarrow> nat \<Rightarrow> string \<Rightarrow> string \<Rightarrow> string \<Rightarrow> dataset_issue" where
  "coordinates_issue c i sid coordinates_prefix msg =
     \<lparr> d_level = ''ERROR'', d_code = c, d_row = i, d_sample_id = sid,
       d_path = coordinates_prefix, d_message = msg \<rparr>"

text \<open>Step (2) of the loop body: the check of the coordinates of row \<open>i\<close>. The four
  configured keys are \<open>k0\<close>, \<open>k1\<close>, \<open>k2\<close>, \<open>k3\<close> (by default \<^verbatim>\<open>x0\<close>, \<^verbatim>\<open>y0\<close>, \<^verbatim>\<open>x1\<close>, \<^verbatim>\<open>y1\<close>).\<close>

definition looks_like_1000 :: "int \<Rightarrow> int \<Rightarrow> cell \<Rightarrow> cell \<Rightarrow> bool" where
  "looks_like_1000 iw ih x1 y1 =
     (iw \<le> 600 \<and> ih \<le> 600 \<and> max (num_of x1) (num_of y1) \<ge> 800 \<and> max (num_of x1) (num_of y1) \<le> 1200)"

definition coordinates_check ::
    "(cell \<Rightarrow> string) \<Rightarrow> string \<Rightarrow> string \<Rightarrow> string \<Rightarrow> string \<times> string \<times> string \<times> string
       \<Rightarrow> nat \<Rightarrow> string \<Rightarrow> row \<Rightarrow> dataset_issue list" where
  "coordinates_check str_cell image_w_field image_h_field coordinates_prefix coordinates_fields i sid r =
     (case coordinates_fields of (k0, k1, k2, k3) \<Rightarrow>
      let iw = cget r image_w_field; ih = cget r image_h_field;
          coordinates = cget r coordinates_prefix
      in case coordinates of
           CDict cs \<Rightarrow>
             if is_int iw \<and> is_int ih then
               (let x0 = cget cs k0; y0 = cget cs k1; x1 = cget cs k2; y1 = cget cs k3;
                    coords = [x0, y0, x1, y1]
                in if list_ex (\<lambda>c. c = CNone) coords then []
                   else if \<not> list_all is_number coords then
                     [coordinates_issue ''E102_coordinates_BAD_TYPE'' i sid coordinates_prefix
                        (''coordinates coords must be numeric; got '' @ str_cell (CList coords))]
                   else
                     (if num_of x0 < 0 \<or> num_of y0 < 0 \<or> num_of x1 < 0 \<or> num_of y1 < 0
                      then [coordinates_issue ''E103_coordinates_NEGATIVE'' i sid coordinates_prefix
                              (''coordinates has negative coords: '' @ str_cell (CList coords))]
                      else [])
                     @ (if num_of x1 > real_of_int (int_of iw) \<or> num_of y1 > real_of_int (int_of ih)
                        then [coordinates_issue
                                (if looks_like_1000 (int_of iw) (int_of ih) x1 y1
                                 then ''E105_coordinates_SPACE_MISMATCH''
                                 else ''E104_coordinates_OUT_OF_BOUNDS'')
                                i sid coordinates_prefix
                                (''coordinates exceeds image size '' @ str_cell iw @ ''x'' @ str_cell ih
                                   @ '': ('' @ str_cell x0 @ '', '' @ str_cell y0 @ '', ''
                                   @ str_cell x1 @ '', '' @ str_cell y1 @ '')''
                                   @ (if looks_like_1000 (int_of iw) (int_of ih) x1 y1
                                      then '' (looks like 1000-space coords; expected pixel space)''
                                      else []))]
                        else []))
             else []
         | _ \<Rightarrow> [])"

text \<open>The body of the loop for row \<open>i\<close> of a split: the \<^verbatim>\<open>None\<close> leaves of step (1), then
  the coordinates.\<close>

definition lint_row ::
    "(cell \<Rightarrow> string) \<Rightarrow> string \<Rightarrow> string list \<Rightarrow> string \<Rightarrow> string \<Rightarrow> string
       \<Rightarrow> string \<times> string \<times> string \<times> string \<Rightarrow> string \<Rightarrow> nat \<Rightarrow> row \<Rightarrow> dataset_issue list" where
  "lint_row str_cell id_field leaf_paths image_w_field image_h_field coordinates_prefix
       coordinates_fields split_name i r =
     (let sid = str_cell (case map_of r id_field of
                            Some v \<Rightarrow> v
                          | None \<Rightarrow> CStr (split_name @ '':row_'' @ str_nat i))
      in map (E101_DATASET_NONE_FILLED i sid) (filter (\<lambda>p. get_by_path r p = CNone) leaf_paths)
         @ coordinates_check str_cell image_w_field image_h_field coordinates_prefix
             coordinates_fields i sid r)"

fun lint_rows ::
    "(nat \<Rightarrow> row \<Rightarrow> dataset_issue list) \<Rightarrow> nat \<Rightarrow> row list \<Rightarrow> dataset_issue list" where
  "lint_rows body i [] = []"
| "lint_rows body i (r # rs) = body i r @ lint_rows body (Suc i) rs"

record split_data =
  features :: "(string \<times> feature) list"
  rows :: "row list"

text \<open>One split of \<^verbatim>\<open>lint_dataset_on_disk\<close>, and the loop over the splits. The dataset
  comes loaded, as the list of its named splits (a single \<^verbatim>\<open>Dataset\<close> is the one split
  \<^verbatim>\<open>data\<close>).\<close>

definition lint_split ::
    "(cell \<Rightarrow> string) \<Rightarrow> string \<Rightarrow> string list \<Rightarrow> bool \<Rightarrow> string \<Rightarrow> string \<Rightarrow> string
       \<Rightarrow> string \<times> string \<times> string \<times> string \<Rightarrow> nat option \<Rightarrow> string \<times> split_data
       \<Rightarrow> dataset_issue list" where
  "lint_split str_cell id_field forbid_none_paths check_all_nested_leaf_nones image_w_field
       image_h_field coordinates_prefix coordinates_fields max_rows named =
     (let split_name = fst named; ds = snd named;
          leaf0 = (if check_all_nested_leaf_nones then nested_leaf_paths (features ds) else []);
          leaf_paths = leaf0 @ filter (\<lambda>p. p \<notin> set leaf0) forbid_none_paths;
          n = (case max_rows of None \<Rightarrow> length (rows ds) | Some m \<Rightarrow> min (length (rows ds)) m)
      in lint_rows (lint_row str_cell id_field leaf_paths image_w_field image_h_field
                      coordinates_prefix coordinates_fields split_name)
           0 (take n (rows ds)))"

definition lint_dataset_on_disk ::
    "(cell \<Rightarrow> string) \<Rightarrow> (string \<times> split_data) list \<Rightarrow> string \<Rightarrow> string list \<Rightarrow> bool \<Rightarrow> string
       \<Rightarrow> string \<Rightarrow> string \<Rightarrow> string \<times> string \<times> string \<times> string \<Rightarrow> nat option
       \<Rightarrow> dataset_issue list" where
  "lint_dataset_on_disk str_cell splits id_field forbid_none_paths check_all_nested_leaf_nones
       image_w_field image_h_field coordinates_prefix coordinates_fields max_rows =
     concat (map (lint_split str_cell id_field forbid_none_paths check_all_nested_leaf_nones
                    image_w_field image_h_field coordinates_prefix coordinates_fields max_rows)
               splits)"

section \<open>The dataset check of the core\<close>

text \<open>\<^verbatim>\<open>_find_image_columns\<close> and the width and height columns picked from the features.\<close>

definition find_image_columns :: "(string \<times> feature) list \<Rightarrow> string list" where
  "find_image_columns feats = map fst (filter (\<lambda>kv. snd kv = FImage) feats)"

definition pick_column :: "(string \<times> feature) list \<Rightarrow> string \<Rightarrow> string \<Rightarrow> string option" where
  "pick_column feats first second =
     (if map_of feats first \<noteq> None then Some first
      else if map_of feats second \<noteq> None then Some second
      else None)"

text \<open>\<^verbatim>\<open>_get_size_from_row\<close>: the explicit columns first, then the first image column
  that carries a size.\<close>

fun size_from_images :: "row \<Rightarrow> string list \<Rightarrow> (int \<times> int) option" where
  "size_from_images r [] = None"
| "size_from_images r (c # cs) =
     (case cget r c of
        CImage w h \<Rightarrow> Some (w, h)
      | CDict img \<Rightarrow>
          if is_int (cget img ''width'') \<and> is_int (cget img ''height'')
          then Some (int_of (cget img ''width''), int_of (cget img ''height''))
          else size_from_images r cs
      | _ \<Rightarrow> size_from_images r cs)"

definition get_size_from_row ::
    "row \<Rightarrow> string list \<Rightarrow> string option \<Rightarrow> string option \<Rightarrow> (int \<times> int) option" where
  "get_size_from_row r image_cols w_col h_col =
     (case (w_col, h_col) of
        (Some wc, Some hc) \<Rightarrow>
          if wc \<noteq> [] \<and> hc \<noteq> [] \<and> is_int (cget r wc) \<and> is_int (cget r hc)
          then Some (int_of (cget r wc), int_of (cget r hc))
          else size_from_images r image_cols
      | _ \<Rightarrow> size_from_images r image_cols)"

text \<open>\<^verbatim>\<open>_walk_none\<close>: the paths of the \<^verbatim>\<open>None\<close> values.\<close>

fun walk_none :: "cell \<Rightarrow> string \<Rightarrow> string list"
  and walk_none_items :: "(string \<times> cell) list \<Rightarrow> string \<Rightarrow> string list"
  and walk_none_elems :: "cell list \<Rightarrow> string \<Rightarrow> nat \<Rightarrow> string list" where
  "walk_none CNone pre = [if pre = [] then ''$'' else pre]"
| "walk_none (CDict kvs) pre = walk_none_items kvs pre"
| "walk_none (CList xs) pre = walk_none_elems xs pre 0"
| "walk_none (CBool b) pre = []"
| "walk_none (CInt n) pre = []"
| "walk_none (CFloat x) pre = []"
| "walk_none (CStr s) pre = []"
| "walk_none (CImage w h) pre = []"
| "walk_none_items [] pre = []"
| "walk_none_items (kv # kvs) pre =
     walk_none (snd kv) (if pre = [] then fst kv else pre @ ''.'' @ fst kv)
       @ walk_none_items kvs pre"
| "walk_none_elems [] pre i = []"
| "walk_none_elems (x # xs) pre i =
     walk_none x (pre @ ''['' @ str_nat i @ '']'') @ walk_none_elems xs pre (Suc i)"

definition E102_DATASET_NONE_VALUE :: "nat \<Rightarrow> string \<Rightarrow> string \<Rightarrow> issue" where
  "E102_DATASET_NONE_VALUE row_no sid p =
     mk_issue ''ERROR'' ''E102_DATASET_NONE_VALUE'' row_no sid p
       (p @ '' is None (often happens when missing nested key gets filled as None after cast/save).'')"

definition E201_IMAGE_SIZE_MISMATCH :: "nat \<Rightarrow> string \<Rightarrow> int \<times> int \<Rightarrow> int \<times> int \<Rightarrow> issue" where
  "E201_IMAGE_SIZE_MISMATCH row_no sid sz expect =
     mk_issue ''ERROR'' ''E201_IMAGE_SIZE_MISMATCH'' row_no sid ''image''
       (''Image size '' @ str_int (fst sz) @ ''x'' @ str_int (snd sz) @ '' != expected ''
          @ str_int (fst expect) @ ''x'' @ str_int (snd expect) @ ''.'')"

definition W202_ROW_SIZE_UNKNOWN :: "nat \<Rightarrow> string \<Rightarrow> issue" where
  "W202_ROW_SIZE_UNKNOWN row_no sid =
     mk_issue ''WARN'' ''W202_IMAGE_SIZE_UNKNOWN'' row_no sid ''image''
       ''Cannot determine image size (no Image column and no width/height columns).''"

text \<open>Step (3): the optional coordinate check. The walk along \<^verbatim>\<open>coord_field\<close> needs every
  part to be a key of a dict.\<close>

fun resolve_field :: "cell \<Rightarrow> string list \<Rightarrow> cell option" where
  "resolve_field cur [] = Some cur"
| "resolve_field (CDict kvs) (part # parts) =
     (case map_of kvs part of None \<Rightarrow> None | Some v \<Rightarrow> resolve_field v parts)"
| "resolve_field cur (part # parts) = None"

definition x_key :: "string \<Rightarrow> bool" where
  "x_key k = (let l = lower k in
     ends_with l ''x'' \<or> ends_with l ''x0'' \<or> ends_with l ''x1'' \<or> ends_with l ''cx'')"

definition y_key :: "string \<Rightarrow> bool" where
  "y_key k = (let l = lower k in
     ends_with l ''y'' \<or> ends_with l ''y0'' \<or> ends_with l ''y1'' \<or> ends_with l ''cy'')"

definition out_of_bounds :: "int \<Rightarrow> int \<Rightarrow> string \<times> cell \<Rightarrow> bool" where
  "out_of_bounds w h kv =
     ((x_key (fst kv) \<and> (num_of (snd kv) < 0 \<or> num_of (snd kv) > real_of_int w))
      \<or> (y_key (fst kv) \<and> (num_of (snd kv) < 0 \<or> num_of (snd kv) > real_of_int h)))"

definition coord_sanity ::
    "(cell \<Rightarrow> string) \<Rightarrow> string \<Rightarrow> string list \<Rightarrow> nat \<Rightarrow> string \<Rightarrow> row \<Rightarrow> (int \<times> int) option
       \<Rightarrow> issue list" where
  "coord_sanity str_cell coord_field coord_keys row_no sid r sz =
     (if coord_field \<noteq> [] \<and> coord_keys \<noteq> [] then
        (case resolve_field (CDict r) (split_on CHR ''.'' coord_field) of
           Some (CDict cur) \<Rightarrow>
             (let vals = map (cget cur) coord_keys in
              case sz of
                Some (w, h) \<Rightarrow>
                  if list_all is_number vals \<and> list_ex (out_of_bounds w h) (zip coord_keys vals)
                  then [mk_issue ''WARN'' ''W301_COORD_OUT_OF_BOUNDS'' row_no sid coord_field
                          (''Coordinates out of bounds for image '' @ str_int w @ ''x'' @ str_int h
                             @ '': ''
                             @ str_cell (CDict (foldl (\<lambda>d k. AList.update k (cget cur k) d) []
                                                  coord_keys)))]
                  else []
              | None \<Rightarrow> [])
         | _ \<Rightarrow> [])
      else [])"

text \<open>The per-split table \<^verbatim>\<open>seen_sizes\<close>, a dict from a size to the number of rows seen
  with it, and \<^verbatim>\<open>seen_sizes[size] = seen_sizes.get(size, 0) + 1\<close>.\<close>

type_synonym seen_sizes = "((int \<times> int) \<times> nat) list"

definition bump :: "seen_sizes \<Rightarrow> int \<times> int \<Rightarrow> seen_sizes" where
  "bump seen sz = AList.update sz (case map_of seen sz of None \<Rightarrow> 1 | Some c \<Rightarrow> c + 1) seen"

record check_options =
  expect_size :: "(int \<times> int) option"
  size_policy :: string
  coord_field :: string
  coord_keys :: "string list"

text \<open>The body of the row loop: the issues and the table after row \<open>idx\<close>.\<close>

definition check_row ::
    "(cell \<Rightarrow> string) \<Rightarrow> check_options \<Rightarrow> string \<Rightarrow> string list \<Rightarrow> string option \<Rightarrow> string option
       \<Rightarrow> nat \<Rightarrow> row \<Rightarrow> issue list \<times> seen_sizes \<Rightarrow> issue list \<times> seen_sizes" where
  "check_row str_cell opts split_name image_cols w_col h_col idx r st =
     (let row_no = idx + 1;
          sid = str_cell (case map_of r ''id'' of
                            Some v \<Rightarrow> v
                          | None \<Rightarrow> CStr (split_name @ '':'' @ str_nat row_no));
          nones = map (E102_DATASET_NONE_VALUE row_no sid) (walk_none (CDict r) []);
          sz = get_size_from_row r image_cols w_col h_col;
          size_issues =
            (case sz of
               Some s \<Rightarrow>
                 (case expect_size opts of
                    Some e \<Rightarrow> if s \<noteq> e then [E201_IMAGE_SIZE_MISMATCH row_no sid s e] else []
                  | None \<Rightarrow> [])
             | None \<Rightarrow> [W202_ROW_SIZE_UNKNOWN row_no sid]);
          seen = (case sz of Some s \<Rightarrow> bump (snd st) s | None \<Rightarrow> snd st)
      in (fst st @ nones @ size_issues
            @ coord_sanity str_cell (coord_field opts) (coord_keys opts) row_no sid r sz,
          seen))"

fun check_rows ::
    "(cell \<Rightarrow> string) \<Rightarrow> check_options \<Rightarrow> string \<Rightarrow> string list \<Rightarrow> string option \<Rightarrow> string option
       \<Rightarrow> nat \<Rightarrow> row list \<Rightarrow> issue list \<times> seen_sizes \<Rightarrow> issue list \<times> seen_sizes" where
  "check_rows str_cell opts split_name image_cols w_col h_col idx [] st = st"
| "check_rows str_cell opts split_name image_cols w_col h_col idx (r # rs) st =
     check_rows str_cell opts split_name image_cols w_col h_col (Suc idx) rs
       (check_row str_cell opts split_name image_cols w_col h_col idx r st)"

text \<open>After the rows of a split: \<^verbatim>\<open>sorted(seen_sizes.items(), key=lambda kv: kv[1],
  reverse=True)[:5]\<close> is a stable sort by falling count, and the two warnings.\<close>

definition top_sizes :: "seen_sizes \<Rightarrow> seen_sizes" where
  "top_sizes seen = take 5 (sort_key (\<lambda>kv. - int (snd kv)) seen)"

definition size_with_count :: "(int \<times> int) \<times> nat \<Rightarrow> string" where
  "size_with_count kv =
     str_int (fst (fst kv)) @ ''x'' @ str_int (snd (fst kv)) @ '' ('' @ str_nat (snd kv) @ '')''"

definition W201_IMAGE_SIZE_INCONSISTENT :: "string \<Rightarrow> seen_sizes \<Rightarrow> issue" where
  "W201_IMAGE_SIZE_INCONSISTENT split_name listed =
     mk_issue ''WARN'' ''W201_IMAGE_SIZE_INCONSISTENT'' 1 split_name ''image''
       (''Inconsistent image sizes in split '' @ split_name @ '': ''
          @ join '', '' (map size_with_count listed))"

definition W202_SPLIT_SIZE_UNKNOWN :: "string \<Rightarrow> issue" where
  "W202_SPLIT_SIZE_UNKNOWN split_name =
     mk_issue ''WARN'' ''W202_IMAGE_SIZE_UNKNOWN'' 1 split_name ''image''
       ''Cannot determine image sizes for this split.''"

definition split_size_issues :: "string \<Rightarrow> string \<Rightarrow> seen_sizes \<Rightarrow> issue list" where
  "split_size_issues split_name policy seen =
     (if lower (if policy = [] then ''any'' else policy) = ''consistent'' then
        (if length seen > 1 then [W201_IMAGE_SIZE_INCONSISTENT split_name (top_sizes seen)]
         else if length seen = 0 then [W202_SPLIT_SIZE_UNKNOWN split_name]
         else [])
      else [])"

definition check_split ::
    "(cell \<Rightarrow> string) \<Rightarrow> check_options \<Rightarrow> string \<times> split_data \<Rightarrow> issue list" where
  "check_split str_cell opts named =
     (let split_name = fst named; ds = snd named;
          image_cols = find_image_columns (features ds);
          w_col = pick_column (features ds) ''image_w'' ''width'';
          h_col = pick_column (features ds) ''image_h'' ''height'';
          st = check_rows str_cell opts split_name image_cols w_col h_col 0 (rows ds) ([], [])
      in fst st @ split_size_issues split_name (size_policy opts) (snd st))"

text \<open>\<^verbatim>\<open>check_dataset_on_disk\<close> on a loaded dataset, given as the list of its named splits
  (\<^verbatim>\<open>_iter_splits\<close> names the split of a single \<^verbatim>\<open>Dataset\<close> \<^verbatim>\<open>data\<close>). When the
  \<^verbatim>\<open>datasets\<close> module cannot be imported the one issue \<^verbatim>\<open>E900_DATASETS_IMPORT\<close> is
  returned.\<close>

definition check_dataset_on_disk ::
    "(cell \<Rightarrow> string) \<Rightarrow> bool \<Rightarrow> (string \<times> split_data) list \<Rightarrow> check_options \<Rightarrow> issue list" where
  "check_dataset_on_disk str_cell datasets_module splits opts =
     (if \<not> datasets_module
      then [mk_issue ''ERROR'' ''E900_DATASETS_IMPORT'' 1 ''dataset'' ''$'' ''Cannot import datasets: '']
      else concat (map (check_split str_cell opts) splits))"



section \<open>Concrete records and files\<close>

text \<open>Scenario B of the specification, and a record with a blank
  and a non-blank system message.\<close>

definition scenario_B_messages :: "json list" where
  "scenario_B_messages =
     [JObj [(''role'', JStr ''system''), (''content'', JStr ''   '')],
      JObj [(''role'', JStr ''user''), (''content'', JStr ''hi'')]]"

definition blank_then_text_messages :: "json list" where
  "blank_then_text_messages =
     [JObj [(''role'', JStr ''system''), (''content'', JStr ''   '')],
      JObj [(''role'', JStr ''system''), (''content'', JStr ''be brief'')],
      JObj [(''role'', JStr ''user''), (''content'', JStr ''hi'')]]"


text \<open>A line whose \<^verbatim>\<open>messages\<close> is a string.\<close>

definition messages_not_list_line :: string where
  "messages_not_list_line = ''{\"id\": \"a\", \"messages\": \"oops\"}''"


text \<open>Scenario A of the specification, as the specification writes it and as
  \<^verbatim>\<open>json.dumps\<close> writes it; a line that both rules change; a line that is not JSON.\<close>

definition scenario_A_line :: string where
  "scenario_A_line = ''{\"id\":\"t1\",\"messages\":[{\"role\":\"user\",\"content\":\"hi\"}]}''"

definition scenario_A_dumped :: string where
  "scenario_A_dumped = ''{\"id\": \"t1\", \"messages\": [{\"role\": \"user\", \"content\": \"hi\"}]}''"


definition usr_line :: string where
  "usr_line = ''{\"messages\":[{\"role\":\"usr\",\"content\":[{\"text\":\"a\"}]}]}''"

definition usr_line_fixed :: string where
  "usr_line_fixed =
     ''{\"messages\": [{\"role\": \"user\", \"content\": [{\"text\": \"a\", \"type\": \"text\"}]}]}''"

definition malformed_line :: string where
  "malformed_line = ''{\"id\": 1,''"

text \<open>A file with a line that both rules change, a blank line, a line that is not JSON
  and a line that no rule changes.\<close>

definition mixed_file :: "string list" where
  "mixed_file = [usr_line, ''   '', malformed_line, scenario_A_line]"


text \<open>A record with a system message, and three plugins. The first is declared
  \<^verbatim>\<open>render(messages)\<close>, as the two plugins under \<^verbatim>\<open>tests/\<close> are, and fails inside (as a
  tokenizer without a chat template does); the second takes the keywords and fails
  inside; the third is declared \<^verbatim>\<open>render(messages)\<close> and returns the texts of the
  messages.\<close>

definition system_user_line :: string where
  "system_user_line =
     ''{\"id\": \"v1\", \"messages\": [{\"role\": \"system\", \"content\": \"sys\"}, {\"role\": \"user\", \"content\": \"hi\"}]}''"

definition positional_failing_plugin :: render_fn where
  "positional_failing_plugin =
     \<lparr> call_kw = (\<lambda>ms obj. Inl TypeError), call_pos = (\<lambda>ms. Inl ValueError) \<rparr>"

definition keyword_failing_plugin :: render_fn where
  "keyword_failing_plugin =
     \<lparr> call_kw = (\<lambda>ms obj. Inl ValueError), call_pos = (\<lambda>ms. Inl ValueError) \<rparr>"

definition positional_plugin :: render_fn where
  "positional_plugin =
     \<lparr> call_kw = (\<lambda>ms obj. Inl TypeError),
       call_pos = (\<lambda>ms. Inr (concat (map (\<lambda>m. typed_text_of_content (get m ''content'')) ms))) \<rparr>"






text \<open>\<^verbatim>\<open>str()\<close> on the values that the rows below hold, and three rows: Scenario E of the
  specification, a row whose first corner lies far outside the image, and a row whose
  \<^verbatim>\<open>y1\<close> was filled with \<^verbatim>\<open>None\<close>.\<close>

definition str_plain :: "cell \<Rightarrow> string" where
  "str_plain c = (case c of CInt i \<Rightarrow> str_int i | CStr s \<Rightarrow> s | CNone \<Rightarrow> ''None'' | _ \<Rightarrow> [])"

definition box :: "cell \<Rightarrow> cell \<Rightarrow> cell \<Rightarrow> cell \<Rightarrow> row" where
  "box x0 y0 x1 y1 = [(''x0'', x0), (''y0'', y0), (''x1'', x1), (''y1'', y1)]"

definition boxed_row :: "string \<Rightarrow> int \<Rightarrow> int \<Rightarrow> row \<Rightarrow> row" where
  "boxed_row ident w h b =
     [(''id'', CStr ident), (''image_w'', CInt w), (''image_h'', CInt h), (''coordinates'', CDict b)]"


definition far_corner_row :: row where
  "far_corner_row = boxed_row ''far'' 512 512 (box (CInt 9999) (CInt 7000) (CInt 100) (CInt 120))"

definition missing_y1_row :: row where
  "missing_y1_row = boxed_row ''m1'' 512 512 (box (CInt 10) (CInt 10) (CInt 100) CNone)"

definition default_fields :: "string \<times> string \<times> string \<times> string" where
  "default_fields = (''x0'', ''y0'', ''x1'', ''y1'')"




section \<open>Properties of the system-presence check\<close>

lemma first_blank_system_eq:
  "first_blank_system ms n sid =
     (if \<exists>m \<in> set ms. strip (typed_text_of_content (get m ''content'')) = []
      then [E002_SYSTEM_EMPTY n sid] else [])"
  by (induction ms) (auto simp: is_blank_text_def)

text \<open>
  Claim C1, as the code has it. For a record whose messages are all mappings and include a
  system message, under a profile that requires a system message, the check returns the
  single issue \<^verbatim>\<open>E002_SYSTEM_EMPTY\<close> at path \<^verbatim>\<open>messages\<close> exactly when some system
  message has an extracted text that is empty after trimming, and returns no issue
  otherwise; so there is never more than one such issue for a record.
\<close>

theorem system_empty_iff_some_system_message_blank:
  assumes "truthy (require_system p)"
    and "list_all is_dict messages"
    and "filter is_system messages \<noteq> []"
  shows "system_presence_and_nonempty messages n sid p =
           Inr (if \<exists>m \<in> set messages. is_system m \<and>
                     strip (typed_text_of_content (get m ''content'')) = []
                then [E002_SYSTEM_EMPTY n sid] else [])
         \<and> path (E002_SYSTEM_EMPTY n sid) = ''messages''
         \<and> code (E002_SYSTEM_EMPTY n sid) = ''E002_SYSTEM_EMPTY''
         \<and> level (E002_SYSTEM_EMPTY n sid) = ''ERROR''"
proof -
  have "system_presence_and_nonempty messages n sid p =
           Inr (if \<exists>m \<in> set messages. is_system m \<and>
                     strip (typed_text_of_content (get m ''content'')) = []
                then [E002_SYSTEM_EMPTY n sid] else [])"
    using assms by (simp add: system_presence_and_nonempty_def first_blank_system_eq)
  moreover have "path (E002_SYSTEM_EMPTY n sid) = ''messages''"
    by (simp add: E002_SYSTEM_EMPTY_def mk_issue_def)
  moreover have "code (E002_SYSTEM_EMPTY n sid) = ''E002_SYSTEM_EMPTY''"
    by (simp add: E002_SYSTEM_EMPTY_def mk_issue_def)
  moreover have "level (E002_SYSTEM_EMPTY n sid) = ''ERROR''"
    by (simp add: E002_SYSTEM_EMPTY_def mk_issue_def LEVEL_ORDER_def)
  ultimately show ?thesis by simp
qed

lemmas concrete_simps =
  Profile_def is_system_def is_blank_text_def strip_def py_isspace_def is_text_item_def

theorem system_empty_scenario_B_witness:
  "truthy (require_system (Profile ''generic'')) \<and> list_all is_dict scenario_B_messages
   \<and> filter is_system scenario_B_messages \<noteq> []
   \<and> system_presence_and_nonempty scenario_B_messages 1 ''t2'' (Profile ''generic'')
       = Inr [E002_SYSTEM_EMPTY 1 ''t2'']"
  using system_empty_iff_some_system_message_blank
          [of "Profile ''generic''" scenario_B_messages 1 "''t2''"]
  by (simp add: scenario_B_messages_def concrete_simps)

text \<open>
  Claim C1 as stated fails: with a blank system message followed by a non-blank one, the
  newline-joined text of all system messages is not empty after trimming, and yet the
  check returns the system-empty issue.
\<close>

theorem system_empty_joined_text_counterexample:
  "strip (system_text blank_then_text_messages) = ''be brief''
   \<and> system_presence_and_nonempty blank_then_text_messages 1 ''t'' (Profile ''generic'')
       = Inr [E002_SYSTEM_EMPTY 1 ''t'']"
  by (simp add: blank_then_text_messages_def system_text_def
        system_presence_and_nonempty_def concrete_simps)

section \<open>Properties of the lint pass\<close>

lemma line_mk_issue [simp]: "line (mk_issue lv c n sid p msg) = n"
  by (simp add: mk_issue_def)

lemma validate_item_line: "i \<in> set (validate_item n sid p it) \<Longrightarrow> line i = n"
  by (auto simp: validate_item_def Let_def E003_def E011_def E012_def split: if_splits)

lemma validate_items_line: "i \<in> set (validate_items n sid base ci its) \<Longrightarrow> line i = n"
  by (induction its arbitrary: ci) (auto dest: validate_item_line)

lemma validate_content_line: "i \<in> set (validate_content n sid base st c) \<Longrightarrow> line i = n"
  by (auto simp: validate_content_def E003_def E012_def dest: validate_items_line
      split: if_splits json.splits)

lemma validate_message_line:
  "validate_message n sid st mi m = Inr iss \<Longrightarrow> i \<in> set iss \<Longrightarrow> line i = n"
  by (auto simp: validate_message_def Let_def E003_def dest: validate_content_line
      split: if_splits)

lemma validate_each_line:
  "validate_each n sid st mi ms = Inr iss \<Longrightarrow> i \<in> set iss \<Longrightarrow> line i = n"
  by (induction ms arbitrary: mi iss)
     (auto split: sum.splits dest: validate_message_line)

lemma validate_messages_schema_line:
  "validate_messages_schema v n sid st = Inr iss \<Longrightarrow> i \<in> set iss \<Longrightarrow> line i = n"
  by (auto simp: validate_messages_schema_def E003_MESSAGES_NOT_LIST_def E003_def
      dest: validate_each_line split: json.splits)

lemma first_blank_system_line: "i \<in> set (first_blank_system ms n sid) \<Longrightarrow> line i = n"
  by (induction ms) (auto simp: E002_SYSTEM_EMPTY_def split: if_splits)

lemma system_presence_line:
  "system_presence_and_nonempty ms n sid p = Inr iss \<Longrightarrow> i \<in> set iss \<Longrightarrow> line i = n"
  by (auto simp: system_presence_and_nonempty_def Let_def E002_SYSTEM_REQUIRED_def
      dest: first_blank_system_line split: if_splits)

lemma mode_specific_line:
  "mode_specific_checks ms n sid mode = Inr iss \<Longrightarrow> i \<in> set iss \<Longrightarrow> line i = n"
  by (auto simp: mode_specific_checks_def Let_def split: if_splits sum.splits option.splits)

lemma deeper_checks_line:
  "deeper_checks ms n sid p mode = Inr iss \<Longrightarrow> i \<in> set iss \<Longrightarrow> line i = n"
  by (auto simp: deeper_checks_def split: sum.splits
      dest: system_presence_line mode_specific_line)

lemma lint_record_line:
  "lint_record mode p st n v = Inr iss \<Longrightarrow> i \<in> set iss \<Longrightarrow> line i = n"
  by (auto simp: lint_record_def Let_def split: json.splits sum.splits if_splits
      dest: validate_messages_schema_line deeper_checks_line)

lemma lint_line_line:
  "lint_line loads mode p st n l = Inr iss \<Longrightarrow> i \<in> set iss \<Longrightarrow> line i = n"
  by (auto simp: lint_line_def Let_def E004_BAD_JSON_def split: if_splits option.splits
      dest: lint_record_line)

lemma lint_lines_range:
  "lint_lines loads mode p st n ls = Inr iss \<Longrightarrow> i \<in> set iss \<Longrightarrow>
     n \<le> line i \<and> line i < n + length ls"
proof (induction ls arbitrary: n iss)
  case Nil
  then show ?case by simp
next
  case (Cons l ls)
  from Cons.prems(1) obtain a b where
    a: "lint_line loads mode p st n l = Inr a" and
    b: "lint_lines loads mode p st (Suc n) ls = Inr b" and iss: "iss = a @ b"
    by (auto split: sum.splits)
  from Cons.prems(2) iss have "i \<in> set a \<or> i \<in> set b" by simp
  then show ?case
  proof
    assume "i \<in> set a"
    with a have "line i = n" by (rule lint_line_line)
    then show ?thesis by simp
  next
    assume "i \<in> set b"
    with Cons.IH [OF b] have "Suc n \<le> line i \<and> line i < Suc n + length ls" by simp
    then show ?thesis by simp
  qed
qed

lemma lint_lines_append:
  "lint_lines loads mode p st n (xs @ ys) =
     (case lint_lines loads mode p st n xs of
        Inl e \<Rightarrow> Inl e
      | Inr a \<Rightarrow>
          (case lint_lines loads mode p st (n + length xs) ys of
             Inl e \<Rightarrow> Inl e
           | Inr b \<Rightarrow> Inr (a @ b)))"
  by (induction xs arbitrary: n) (auto split: sum.splits)

lemma lint_line_messages_not_list:
  assumes "strip l \<noteq> []" and "loads (strip l) = Some (JObj obj)"
    and "\<not> is_list (get (JObj obj) ''messages'')"
  shows "lint_line loads mode p st n l = Inr [E003_MESSAGES_NOT_LIST n (sample_id_of obj n)]"
  using assms
  by (cases "get (JObj obj) ''messages''")
     (simp_all add: lint_line_def lint_record_def Let_def validate_messages_schema_def
        SKIP_CODES_def E003_MESSAGES_NOT_LIST_def E003_def mk_issue_def del: get.simps)


text \<open>
  Claim C6. A line that decodes to an object whose \<^verbatim>\<open>messages\<close> is not a list yields
  exactly one issue, the schema mismatch at path \<^verbatim>\<open>messages\<close>, whatever the profile and
  the mode are: the record returns that one issue without raising, so neither the
  per-message checks nor the system check nor the supervision check ran on it, and in
  the report of a completed pass it is the only issue that carries the record's line
  number.
\<close>

theorem lint_messages_not_a_sequence:
  assumes "strip l \<noteq> []" and "loads (strip l) = Some (JObj obj)"
    and "\<not> is_list (get (JObj obj) ''messages'')"
    and "lint_jsonl loads (pre @ l # post) mode p st = Inr issues"
  shows "lint_line loads mode p st n l = Inr [E003_MESSAGES_NOT_LIST n (sample_id_of obj n)]
       \<and> filter (\<lambda>i. line i = Suc (length pre)) issues
           = [E003_MESSAGES_NOT_LIST (Suc (length pre)) (sample_id_of obj (Suc (length pre)))]
       \<and> code (E003_MESSAGES_NOT_LIST n (sample_id_of obj n)) = ''E003_SCHEMA_MISMATCH''
       \<and> path (E003_MESSAGES_NOT_LIST n (sample_id_of obj n)) = ''messages''"
proof -
  let ?k = "Suc (length pre)"
  let ?one = "E003_MESSAGES_NOT_LIST ?k (sample_id_of obj ?k)"
  have here: "lint_line loads mode p st m l = Inr [E003_MESSAGES_NOT_LIST m (sample_id_of obj m)]" for m
    using assms(1-3) by (rule lint_line_messages_not_list)
  from assms(4) obtain a c where
    a: "lint_lines loads mode p st 1 pre = Inr a" and
    c: "lint_lines loads mode p st (Suc ?k) post = Inr c" and
    issues: "issues = a @ ?one # c"
    by (auto simp: lint_jsonl_def lint_lines_append here split: sum.splits)
  have "\<forall>i \<in> set a. line i \<noteq> ?k"
    using lint_lines_range [OF a] by fastforce
  then have fa: "filter (\<lambda>i. line i = ?k) a = []" by (simp add: filter_empty_conv)
  have "\<forall>i \<in> set c. line i \<noteq> ?k"
    using lint_lines_range [OF c] by fastforce
  then have fc: "filter (\<lambda>i. line i = ?k) c = []" by (simp add: filter_empty_conv)
  have one: "line ?one = ?k"
    by (simp add: E003_MESSAGES_NOT_LIST_def E003_def)
  have "filter (\<lambda>i. line i = ?k) issues = [?one]"
    by (simp add: issues fa fc one)
  moreover have "code (E003_MESSAGES_NOT_LIST n (sample_id_of obj n)) = ''E003_SCHEMA_MISMATCH''"
    by (simp add: E003_MESSAGES_NOT_LIST_def E003_def mk_issue_def)
  moreover have "path (E003_MESSAGES_NOT_LIST n (sample_id_of obj n)) = ''messages''"
    by (simp add: E003_MESSAGES_NOT_LIST_def E003_def mk_issue_def)
  ultimately show ?thesis using here by simp
qed

theorem lint_messages_not_a_sequence_witness:
  "strip messages_not_list_line \<noteq> []
   \<and> json_loads (strip messages_not_list_line) = Some (JObj [(''id'', JStr ''a''), (''messages'', JStr ''oops'')])
   \<and> \<not> is_list (get (JObj [(''id'', JStr ''a''), (''messages'', JStr ''oops'')]) ''messages'')
   \<and> lint_jsonl json_loads ([] @ messages_not_list_line # []) ''train'' (Profile ''generic'') False
       = Inr [E003_MESSAGES_NOT_LIST 1 ''a'']
   \<and> filter (\<lambda>i. line i = 1) [E003_MESSAGES_NOT_LIST 1 ''a''] = [E003_MESSAGES_NOT_LIST 1 ''a'']"
proof -
  let ?obj = "[(''id'', JStr ''a''), (''messages'', JStr ''oops'')]"
  have h1: "strip messages_not_list_line \<noteq> []"
    unfolding messages_not_list_line_def by code_simp
  have h2: "json_loads (strip messages_not_list_line) = Some (JObj ?obj)"
    unfolding messages_not_list_line_def by code_simp
  have h3: "\<not> is_list (get (JObj ?obj) ''messages'')" by simp
  have sid: "sample_id_of ?obj n = ''a''" for n
    by (simp add: sample_id_of_def py_str_def)
  have h4: "lint_jsonl json_loads ([] @ messages_not_list_line # []) ''train'' (Profile ''generic'') False
       = Inr [E003_MESSAGES_NOT_LIST 1 ''a'']"
    using h1 h2
    by (simp add: lint_jsonl_def lint_line_def lint_record_def validate_messages_schema_def
          SKIP_CODES_def E003_MESSAGES_NOT_LIST_def E003_def mk_issue_def sid)
  show ?thesis
    using h1 h2 h3 h4 lint_messages_not_a_sequence [OF h1 h2 h3 h4, of 1]
    by (simp add: sid)
qed


section \<open>Properties of the safe-fix pass\<close>

lemma get_set_key_same: "is_dict m \<Longrightarrow> get (set_key m k v) k = v"
  by (cases m) (simp_all add: update_conv')

lemma get_set_key_other: "k' \<noteq> k \<Longrightarrow> get (set_key m k v) k' = get m k'"
  by (cases m) (simp_all add: update_conv')

lemma has_key_set_key: "is_dict m \<Longrightarrow> has_key (set_key m k v) k' = (k' = k \<or> has_key m k')"
  by (cases m) (auto simp: update_conv')

lemma is_dict_set_key [simp]: "is_dict (set_key m k v) = is_dict m"
  by (cases m) simp_all

lemma set_key_twice [simp]: "set_key (set_key m k v) k v = set_key m k v"
  by (cases m) simp_all


lemma fix_item_idem:
  "fix_item n sid it = (it', fx) \<Longrightarrow> fix_item n' sid' it' = (it', [])"
  by (auto simp: fix_item_def needs_type_def has_key_set_key split: if_splits)

lemma fix_items_idem:
  "fix_items n sid its = (its', fx) \<Longrightarrow> fix_items n' sid' its' = (its', [])"
proof (induction its arbitrary: its' fx)
  case Nil
  then show ?case by simp
next
  case (Cons it its)
  obtain a fa where a: "fix_item n sid it = (a, fa)" by (cases "fix_item n sid it")
  obtain b fb where b: "fix_items n sid its = (b, fb)" by (cases "fix_items n sid its")
  from Cons.prems a b have its': "its' = a # b" by simp
  show ?case
    using fix_item_idem [OF a, of n' sid'] Cons.IH [OF b] by (simp add: its')
qed

lemma fix_message_idem:
  assumes "fix_message st n sid m = (m', fx)"
  shows "fix_message st n' sid' m' = (m', [])"
proof (cases "is_dict m")
  case False
  with assms show ?thesis by (simp add: fix_message_def)
next
  case True
  define m1 where "m1 = (if needs_role m then set_key m ''role'' (JStr ''user'') else m)"
  have d1: "is_dict m1" using True by (simp add: m1_def)
  have r1: "\<not> needs_role m1"
    using True by (simp add: m1_def needs_role_def get_set_key_same)
  have c1: "get m1 ''content'' = get m ''content''"
    by (simp add: m1_def get_set_key_other)
  show ?thesis
  proof (cases "st \<and> is_list (get m ''content'')")
    case False
    then have "m' = m1"
      using assms True
      by (auto simp: fix_message_def m1_def Let_def get_set_key_other split: json.splits if_splits prod.splits)
    then show ?thesis
      using False d1 r1 c1
      by (auto simp: fix_message_def Let_def split: json.splits)
  next
    case st: True
    then obtain its where its: "get m ''content'' = JList its" by (cases "get m ''content''") auto
    obtain its' tf where f: "fix_items n sid its = (its', tf)" by (cases "fix_items n sid its")
    have m': "m' = set_key m1 ''content'' (JList its')"
      using assms True st its f
      by (auto simp: fix_message_def m1_def Let_def get_set_key_other split: if_splits)
    have d': "is_dict m'" by (simp add: m' d1)
    have r': "\<not> needs_role m'" using r1 by (simp add: m' needs_role_def get_set_key_other)
    have c': "get m' ''content'' = JList its'" by (simp add: m' get_set_key_same d1)
    show ?thesis
      using d' r' c' st fix_items_idem [OF f, of n' sid']
      by (simp add: fix_message_def Let_def) (simp add: m')
  qed
qed

lemma fix_messages_idem:
  "fix_messages st n sid ms = (ms', fx) \<Longrightarrow> fix_messages st n' sid' ms' = (ms', [])"
proof (induction ms arbitrary: ms' fx)
  case Nil
  then show ?case by simp
next
  case (Cons m ms)
  obtain a fa where a: "fix_message st n sid m = (a, fa)" by (cases "fix_message st n sid m")
  obtain b fb where b: "fix_messages st n sid ms = (b, fb)" by (cases "fix_messages st n sid ms")
  from Cons.prems a b have ms': "ms' = a # b" by simp
  show ?case
    using fix_message_idem [OF a, of n' sid'] Cons.IH [OF b] by (simp add: ms')
qed

lemma fix_record_idem:
  assumes "fix_record st n v = Inr (v', fx)"
  shows "fix_record st n' v' = Inr (v', [])"
proof -
  from assms obtain obj where v: "v = JObj obj"
    by (cases v) (simp_all add: fix_record_def)
  show ?thesis
  proof (cases "get v ''messages''")
    case (JList ms)
    obtain ms' f where f: "fix_messages st n (sample_id_of obj n) ms = (ms', f)"
      by (cases "fix_messages st n (sample_id_of obj n) ms")
    have v': "v' = set_key v ''messages'' (JList ms')"
      using assms JList f by (simp add: fix_record_def v del: get.simps set_key.simps)
    obtain obj' where o': "v' = JObj obj'" by (cases v') (simp_all add: v' v)
    have g: "get (JObj obj') ''messages'' = JList ms'"
      unfolding o' [symmetric] v' by (simp add: v update_conv')
    show ?thesis
      using fix_messages_idem [OF f, of n' "sample_id_of obj' n'"] g
      by (simp add: fix_record_def o' del: get.simps set_key.simps)
         (simp add: o' [symmetric] v')
  qed (use assms in \<open>auto simp: fix_record_def v split: json.splits\<close>)
qed







lemma fix_lines_append:
  "fix_lines loads dumps st n (xs @ ys) =
     (case fix_lines loads dumps st n xs of
        Inl e \<Rightarrow> Inl e
      | Inr (o1, i1) \<Rightarrow>
          (case fix_lines loads dumps st (n + length xs) ys of
             Inl e \<Rightarrow> Inl e
           | Inr (o2, i2) \<Rightarrow> Inr (o1 @ o2, i1 @ i2)))"
  by (induction xs arbitrary: n) (auto split: sum.splits prod.splits)

lemma fix_lines_split:
  assumes "fix_lines loads dumps st n (pre @ raw # post) = Inr (out, issues)"
    and "fix_line loads dumps st (n + length pre) raw = Inr (w, j)"
  shows "\<exists>o1 i1 o2 i2.
           fix_lines loads dumps st n pre = Inr (o1, i1)
         \<and> fix_lines loads dumps st (Suc (n + length pre)) post = Inr (o2, i2)
         \<and> out = o1 @ w @ o2 \<and> issues = i1 @ j @ i2"
  using assms by (auto simp: fix_lines_append split: sum.splits prod.splits)










lemma fix_lines_out:
  "fix_lines loads dumps st n raws = Inr (out, iss) \<Longrightarrow>
     out = map dumps (written_objects loads st n raws)"
proof (induction raws arbitrary: n out iss)
  case Nil
  then show ?case by simp
next
  case (Cons raw rest)
  from Cons.prems obtain w j o2 i2 where
    a: "fix_line loads dumps st n raw = Inr (w, j)" and
    b: "fix_lines loads dumps st (Suc n) rest = Inr (o2, i2)" and out: "out = w @ o2"
    by (auto split: sum.splits prod.splits)
  have "w = map dumps (if strip raw = [] then []
      else case loads raw of None \<Rightarrow> []
           | Some v \<Rightarrow> (case fix_record st n v of Inl e \<Rightarrow> [] | Inr (obj', fixes) \<Rightarrow> [obj']))"
    using a by (auto simp: fix_line_def split: if_splits option.splits sum.splits prod.splits)
  with Cons.IH [OF b] out show ?case by simp
qed

lemma written_objects_fixed:
  "v' \<in> set (written_objects loads st n raws) \<Longrightarrow> \<exists>k v fx. fix_record st k v = Inr (v', fx)"
proof (induction raws arbitrary: n)
  case Nil
  then show ?case by simp
next
  case (Cons raw rest)
  then show ?case
    by (auto split: if_splits option.splits sum.splits prod.splits) (metis surj_pair)+
qed

lemma second_pass:
  assumes "\<forall>v \<in> set objs. reads_back loads dumps v \<and> (\<forall>k. fix_record st k v = Inr (v, []))"
  shows "fix_lines loads dumps st k (map dumps objs) = Inr (map dumps objs, [])"
  using assms
  by (induction objs arbitrary: k) (simp_all add: fix_line_def reads_back_def)

text \<open>
  Claim C5. When a pass over a file completes, a second pass with the same
  \<^verbatim>\<open>strict_typed\<close> flag over the lines it wrote writes the very same lines and reports
  no issue at all, so no fix either. The codec is a parameter: what is asked of it is
  that each object the first pass serialised reads back (\<open>reads_back\<close>). The rewrites
  themselves are idempotent on every record (\<open>fix_record_idem\<close>).
\<close>

theorem fix_jsonl_idempotent:
  assumes "fix_jsonl loads dumps file st = Inr (out, issues)"
    and "list_all (reads_back loads dumps) (written_objects loads st 1 file)"
  shows "fix_jsonl loads dumps out st = Inr (out, [])"
proof -
  let ?objs = "written_objects loads st 1 file"
  have out: "out = map dumps ?objs"
    using assms(1) unfolding fix_jsonl_def by (rule fix_lines_out)
  have "\<forall>v \<in> set ?objs. reads_back loads dumps v \<and> (\<forall>k. fix_record st k v = Inr (v, []))"
  proof
    fix v assume v: "v \<in> set ?objs"
    then obtain k0 v0 fx where "fix_record st k0 v0 = Inr (v, fx)"
      using written_objects_fixed by blast
    then have "\<forall>k. fix_record st k v = Inr (v, [])" using fix_record_idem by blast
    moreover have "reads_back loads dumps v" using assms(2) v by (simp add: list_all_iff)
    ultimately show "reads_back loads dumps v \<and> (\<forall>k. fix_record st k v = Inr (v, []))" by simp
  qed
  then show ?thesis unfolding fix_jsonl_def out by (rule second_pass)
qed

lemma mixed_file_fixed:
  "fix_jsonl json_loads json_dumps mixed_file True
     = Inr ([usr_line_fixed, scenario_A_dumped],
            [I901_FIX_ROLE_USR 1 ''line_1'', I902_FIX_ADD_TYPE_TEXT 1 ''line_1'', E004_BAD_JSON 3])"
  unfolding mixed_file_def usr_line_def usr_line_fixed_def malformed_line_def scenario_A_line_def
    scenario_A_dumped_def
  by code_simp

lemma mixed_file_reads_back:
  "list_all (reads_back json_loads json_dumps) (written_objects json_loads True 1 mixed_file)"
  unfolding mixed_file_def usr_line_def usr_line_fixed_def malformed_line_def scenario_A_line_def
  by code_simp

theorem fix_jsonl_idempotent_witness:
  "fix_jsonl json_loads json_dumps mixed_file True
     = Inr ([usr_line_fixed, scenario_A_dumped],
            [I901_FIX_ROLE_USR 1 ''line_1'', I902_FIX_ADD_TYPE_TEXT 1 ''line_1'', E004_BAD_JSON 3])
   \<and> list_all (reads_back json_loads json_dumps) (written_objects json_loads True 1 mixed_file)
   \<and> fix_jsonl json_loads json_dumps [usr_line_fixed, scenario_A_dumped] True
     = Inr ([usr_line_fixed, scenario_A_dumped], [])"
  using mixed_file_fixed mixed_file_reads_back
    fix_jsonl_idempotent [OF mixed_file_fixed mixed_file_reads_back]
  by simp


lemma fix_items_line: "fix_items n sid its = (its', fx) \<Longrightarrow> i \<in> set fx \<Longrightarrow> line i = n"
proof (induction its arbitrary: its' fx)
  case Nil
  then show ?case by simp
next
  case (Cons it its)
  obtain a fa where a: "fix_item n sid it = (a, fa)" by (cases "fix_item n sid it")
  obtain b fb where b: "fix_items n sid its = (b, fb)" by (cases "fix_items n sid its")
  from Cons.prems(1) a b have fx: "fx = fa @ fb" by simp
  have "i \<in> set fa \<Longrightarrow> line i = n"
    using a by (auto simp: fix_item_def I902_FIX_ADD_TYPE_TEXT_def split: if_splits)
  with Cons.IH [OF b] Cons.prems(2) fx show ?case by auto
qed

lemma fix_message_line:
  "fix_message st n sid m = (m', fx) \<Longrightarrow> i \<in> set fx \<Longrightarrow> line i = n"
  by (auto simp: fix_message_def Let_def I901_FIX_ROLE_USR_def
      split: if_splits json.splits prod.splits dest: fix_items_line)

lemma fix_messages_line:
  "fix_messages st n sid ms = (ms', fx) \<Longrightarrow> i \<in> set fx \<Longrightarrow> line i = n"
proof (induction ms arbitrary: ms' fx)
  case Nil
  then show ?case by simp
next
  case (Cons m ms)
  obtain a fa where a: "fix_message st n sid m = (a, fa)" by (cases "fix_message st n sid m")
  obtain b fb where b: "fix_messages st n sid ms = (b, fb)" by (cases "fix_messages st n sid ms")
  from Cons.prems(1) a b have fx: "fx = fa @ fb" by simp
  with fix_message_line [OF a] Cons.IH [OF b] Cons.prems(2) show ?case by auto
qed

lemma fix_record_line:
  "fix_record st n v = Inr (v', fx) \<Longrightarrow> i \<in> set fx \<Longrightarrow> line i = n"
  by (auto simp: fix_record_def Let_def split: json.splits prod.splits dest: fix_messages_line
      simp del: get.simps set_key.simps)

lemma fix_line_line:
  "fix_line loads dumps st n raw = Inr (w, fx) \<Longrightarrow> i \<in> set fx \<Longrightarrow> line i = n"
  by (auto simp: fix_line_def E004_BAD_JSON_def split: if_splits option.splits sum.splits prod.splits
      dest: fix_record_line)

lemma fix_lines_range:
  "fix_lines loads dumps st n raws = Inr (out, iss) \<Longrightarrow> i \<in> set iss \<Longrightarrow>
     n \<le> line i \<and> line i < n + length raws"
proof (induction raws arbitrary: n out iss)
  case Nil
  then show ?case by simp
next
  case (Cons raw rest)
  from Cons.prems(1) obtain w j o2 i2 where
    a: "fix_line loads dumps st n raw = Inr (w, j)" and
    b: "fix_lines loads dumps st (Suc n) rest = Inr (o2, i2)" and iss: "iss = j @ i2"
    by (auto split: sum.splits prod.splits)
  from Cons.prems(2) iss have "i \<in> set j \<or> i \<in> set i2" by simp
  then show ?case
  proof
    assume "i \<in> set j"
    with a have "line i = n" by (rule fix_line_line)
    then show ?thesis by simp
  next
    assume "i \<in> set i2"
    with Cons.IH [OF b] have "Suc n \<le> line i \<and> line i < Suc n + length rest" by simp
    then show ?thesis by simp
  qed
qed

lemma fix_line_unusable:
  assumes "strip raw = [] \<or> loads raw = None"
  shows "fix_line loads dumps st n raw = Inr ([], if strip raw = [] then [] else [E004_BAD_JSON n])"
  using assms by (auto simp: fix_line_def)

text \<open>
  Claim C9. A line that is blank, or that does not decode, writes nothing: the output of
  a completed pass is what the lines before it wrote followed by what the lines after it
  wrote. A line that does not decode adds exactly one issue, \<^verbatim>\<open>E004_BAD_JSON\<close> with the
  sample id \<^verbatim>\<open>line_<n>\<close>, and a blank line adds none: these are all the issues of the
  report that carry the line's number.
\<close>

theorem fix_drops_unusable_lines:
  assumes "strip raw = [] \<or> loads raw = None"
    and "fix_jsonl loads dumps (pre @ raw # post) st = Inr (out, issues)"
  shows "fix_line loads dumps st n raw
           = Inr ([], if strip raw = [] then [] else [E004_BAD_JSON n])
       \<and> (\<exists>o1 i1 o2 i2.
             fix_lines loads dumps st 1 pre = Inr (o1, i1)
           \<and> fix_lines loads dumps st (Suc (Suc (length pre))) post = Inr (o2, i2)
           \<and> out = o1 @ o2)
       \<and> filter (\<lambda>i. line i = Suc (length pre)) issues
           = (if strip raw = [] then [] else [E004_BAD_JSON (Suc (length pre))])
       \<and> code (E004_BAD_JSON n) = ''E004_BAD_JSON''
       \<and> sample_id (E004_BAD_JSON n) = ''line_'' @ str_nat n"
proof -
  let ?k = "Suc (length pre)"
  let ?j = "if strip raw = [] then [] else [E004_BAD_JSON ?k]"
  have here: "fix_line loads dumps st m raw
                = Inr ([], if strip raw = [] then [] else [E004_BAD_JSON m])" for m
    using assms(1) by (rule fix_line_unusable)
  from assms(2) have "fix_lines loads dumps st 1 (pre @ raw # post) = Inr (out, issues)"
    by (simp add: fix_jsonl_def)
  from fix_lines_split [OF this, of "[]" ?j] here [of ?k]
  obtain o1 i1 o2 i2 where
    a: "fix_lines loads dumps st 1 pre = Inr (o1, i1)" and
    c: "fix_lines loads dumps st (Suc ?k) post = Inr (o2, i2)" and
    out: "out = o1 @ o2" and issues: "issues = i1 @ ?j @ i2"
    by auto
  have "\<forall>i \<in> set i1. line i \<noteq> ?k"
    using fix_lines_range [OF a] by fastforce
  then have fa: "filter (\<lambda>i. line i = ?k) i1 = []" by (simp add: filter_empty_conv)
  have "\<forall>i \<in> set i2. line i \<noteq> ?k"
    using fix_lines_range [OF c] by fastforce
  then have fc: "filter (\<lambda>i. line i = ?k) i2 = []" by (simp add: filter_empty_conv)
  have one: "line (E004_BAD_JSON ?k) = ?k" by (simp add: E004_BAD_JSON_def)
  have "filter (\<lambda>i. line i = ?k) issues = ?j"
    by (simp add: issues fa fc one)
  moreover have "code (E004_BAD_JSON n) = ''E004_BAD_JSON''"
    by (simp add: E004_BAD_JSON_def mk_issue_def)
  moreover have "sample_id (E004_BAD_JSON n) = ''line_'' @ str_nat n"
    by (simp add: E004_BAD_JSON_def mk_issue_def)
  ultimately show ?thesis using here a c out by blast
qed

lemma malformed_line_bad: "json_loads malformed_line = None"
  unfolding malformed_line_def by code_simp

theorem fix_drops_unusable_lines_witness:
  "(strip malformed_line = [] \<or> json_loads malformed_line = None)
   \<and> fix_jsonl json_loads json_dumps ([usr_line, ''   ''] @ malformed_line # [scenario_A_line]) True
     = Inr ([usr_line_fixed, scenario_A_dumped],
            [I901_FIX_ROLE_USR 1 ''line_1'', I902_FIX_ADD_TYPE_TEXT 1 ''line_1'', E004_BAD_JSON 3])
   \<and> fix_line json_loads json_dumps True 3 malformed_line = Inr ([], [E004_BAD_JSON 3])
   \<and> filter (\<lambda>i. line i = 3)
        [I901_FIX_ROLE_USR 1 ''line_1'', I902_FIX_ADD_TYPE_TEXT 1 ''line_1'', E004_BAD_JSON 3]
       = [E004_BAD_JSON 3]
   \<and> sample_id (E004_BAD_JSON 3) = ''line_3''"
proof -
  have h1: "strip malformed_line = [] \<or> json_loads malformed_line = None"
    using malformed_line_bad by simp
  have h2: "fix_jsonl json_loads json_dumps ([usr_line, ''   ''] @ malformed_line # [scenario_A_line]) True
     = Inr ([usr_line_fixed, scenario_A_dumped],
            [I901_FIX_ROLE_USR 1 ''line_1'', I902_FIX_ADD_TYPE_TEXT 1 ''line_1'', E004_BAD_JSON 3])"
    using mixed_file_fixed by (simp add: mixed_file_def)
  have nb: "strip malformed_line \<noteq> []" unfolding malformed_line_def by code_simp
  have s3: "str_nat 3 = ''3''" by code_simp
  note T = fix_drops_unusable_lines [OF h1 h2, of 3]
  have c1: "fix_line json_loads json_dumps True 3 malformed_line = Inr ([], [E004_BAD_JSON 3])"
    using conjunct1 [OF T] nb by simp
  have c2: "sample_id (E004_BAD_JSON 3) = ''line_3''"
    using T s3 by simp
  have c3: "filter (\<lambda>i. line i = 3)
        [I901_FIX_ROLE_USR 1 ''line_1'', I902_FIX_ADD_TYPE_TEXT 1 ''line_1'', E004_BAD_JSON 3]
       = [E004_BAD_JSON 3]"
    by (simp add: I901_FIX_ROLE_USR_def I902_FIX_ADD_TYPE_TEXT_def E004_BAD_JSON_def)
  show ?thesis
    using h1 h2 c1 c2 c3 by blast
qed


section \<open>Properties of the render-level check\<close>

text \<open>
  Claim C2 at a failing input. With a plugin declared \<^verbatim>\<open>render(messages)\<close> the keyword call
  raises \<^verbatim>\<open>TypeError\<close> and the source calls \<^verbatim>\<open>render_fn(messages)\<close> from inside the
  handler; when that call raises, the exception leaves
  \<^verbatim>\<open>verify_system_visibility_jsonl\<close>: the pass over the two records returns no issue list
  at all. A plugin that takes the keywords and fails in the same way gives one
  \<^verbatim>\<open>E901_RENDER_PLUGIN_ERROR\<close> for each record.
\<close>

theorem render_fallback_failure_aborts:
  "verify_system_visibility_jsonl json_loads [system_user_line, system_user_line]
      (Profile ''generic'') positional_failing_plugin False = Inl ValueError
   \<and> verify_system_visibility_jsonl json_loads [system_user_line, system_user_line]
      (Profile ''generic'') keyword_failing_plugin False
     = Inr [E901_RENDER_PLUGIN_ERROR 1 ''v1'', E901_RENDER_PLUGIN_ERROR 2 ''v1'']"
  unfolding system_user_line_def positional_failing_plugin_def keyword_failing_plugin_def
  by code_simp

section \<open>Properties of the profile registry\<close>







section \<open>Properties of the stricter dataset check\<close>

lemma is_number_not_none: "is_number c \<Longrightarrow> c \<noteq> CNone"
  by (cases c) simp_all








text \<open>
  Claim C10. Only the third and the fourth configured key are compared with the image
  size: when the four values are numeric and not negative, \<open>x1\<close> is at most the width
  and \<open>y1\<close> at most the height, the coordinate check of the row emits nothing, wherever
  \<open>x0\<close> and \<open>y0\<close> lie. And when one of the four values is \<^verbatim>\<open>None\<close> the coordinate check
  of the row emits nothing.
\<close>

theorem strict_coordinates_only_x1_y1:
  assumes "cget r c_field = CDict cs"
  shows "(is_int (cget r w_field) \<and> is_int (cget r h_field)
          \<and> list_all is_number [cget cs ka, cget cs kb, cget cs kc, cget cs kd]
          \<and> list_all (\<lambda>c. 0 \<le> num_of c) [cget cs ka, cget cs kb, cget cs kc, cget cs kd]
          \<and> num_of (cget cs kc) \<le> real_of_int (int_of (cget r w_field))
          \<and> num_of (cget cs kd) \<le> real_of_int (int_of (cget r h_field))
          \<longrightarrow> coordinates_check str_cell w_field h_field c_field (ka, kb, kc, kd) i sid r = [])
       \<and> (list_ex (\<lambda>c. c = CNone) [cget cs ka, cget cs kb, cget cs kc, cget cs kd]
          \<longrightarrow> coordinates_check str_cell w_field h_field c_field (ka, kb, kc, kd) i sid r = [])"
  using assms
  by (auto simp: coordinates_check_def Let_def is_number_not_none)

theorem strict_coordinates_only_x1_y1_witness:
  "cget far_corner_row ''coordinates'' = CDict (box (CInt 9999) (CInt 7000) (CInt 100) (CInt 120))
   \<and> coordinates_check str_plain ''image_w'' ''image_h'' ''coordinates''
         (''x0'', ''y0'', ''x1'', ''y1'') 0 ''far'' far_corner_row = []
   \<and> num_of (CInt 9999) > real_of_int 512
   \<and> cget missing_y1_row ''coordinates'' = CDict (box (CInt 10) (CInt 10) (CInt 100) CNone)
   \<and> coordinates_check str_plain ''image_w'' ''image_h'' ''coordinates''
         (''x0'', ''y0'', ''x1'', ''y1'') 2 ''m1'' missing_y1_row = []"
proof -
  let ?b = "box (CInt 9999) (CInt 7000) (CInt 100) (CInt 120)"
  let ?m = "box (CInt 10) (CInt 10) (CInt 100) CNone"
  have f: "cget far_corner_row ''coordinates'' = CDict ?b"
    by (simp add: far_corner_row_def boxed_row_def cget_def)
  have m: "cget missing_y1_row ''coordinates'' = CDict ?m"
    by (simp add: missing_y1_row_def boxed_row_def cget_def)
  have c1: "coordinates_check str_plain ''image_w'' ''image_h'' ''coordinates''
         (''x0'', ''y0'', ''x1'', ''y1'') 0 ''far'' far_corner_row = []"
    using strict_coordinates_only_x1_y1
            [OF f, where w_field = "''image_w''" and h_field = "''image_h''" and ka = "''x0''"
               and kb = "''y0''" and kc = "''x1''" and kd = "''y1''" and str_cell = str_plain
               and i = 0 and sid = "''far''"]
    by (simp add: far_corner_row_def boxed_row_def box_def cget_def)
  have c2: "coordinates_check str_plain ''image_w'' ''image_h'' ''coordinates''
         (''x0'', ''y0'', ''x1'', ''y1'') 2 ''m1'' missing_y1_row = []"
    using strict_coordinates_only_x1_y1
            [OF m, where w_field = "''image_w''" and h_field = "''image_h''" and ka = "''x0''"
               and kb = "''y0''" and kc = "''x1''" and kd = "''y1''" and str_cell = str_plain
               and i = 2 and sid = "''m1''"]
    by (simp add: box_def cget_def)
  show ?thesis using f m c1 c2 by simp
qed

section \<open>Properties of the dataset check of the core\<close>


lemma check_rows_issues_prefix:
  "\<exists>more. fst (check_rows str_cell opts nm image_cols w_col h_col idx rs st) = fst st @ more"
proof (induction rs arbitrary: idx st)
  case Nil
  then show ?case by simp
next
  case (Cons r rs)
  obtain more where
    "fst (check_rows str_cell opts nm image_cols w_col h_col (Suc idx) rs
            (check_row str_cell opts nm image_cols w_col h_col idx r st))
       = fst (check_row str_cell opts nm image_cols w_col h_col idx r st) @ more"
    using Cons.IH by blast
  then show ?case by (simp add: check_row_def Let_def)
qed




















end
